theory Spec2Isabelle
  imports Main "HOL-Library.Word"
begin

section \<open>Ethereum-style transactions of the node: envelope, codec, identity, validation\<close>

text \<open>
  The development follows \<^verbatim>\<open>pkg/proto/eth_transaction.go\<close>. Go's byte is an 8-bit word,
  \<^verbatim>\<open>uint64\<close> a 64-bit word, \<^verbatim>\<open>*big.Int\<close> an unbounded integer, a byte slice a list of
  bytes. A method with a pointer receiver takes the envelope and returns the envelope it
  leaves behind next to its result, so that every assignment of the source is visible.
\<close>

type_synonym byte = "8 word"
type_synonym bytes = "byte list"
type_synonym uint64 = "64 word"

text \<open>
  Modelled from the spec: the type \<^verbatim>\<open>Scheme\<close> is declared outside the file. It is the
  chain identifier the node is configured with, a small integer; the source converts it
  with \<^verbatim>\<open>int64(scheme)\<close> and prints it as a character, as it does a byte.
\<close>
type_synonym Scheme = byte

subsection \<open>Transaction types\<close>

text \<open>\<^verbatim>\<open>type EthereumTxType byte\<close> with the constants numbered by \<^verbatim>\<open>iota\<close>.\<close>
type_synonym EthereumTxType = byte

definition EthereumLegacyTxType :: EthereumTxType where
  "EthereumLegacyTxType = 0"

definition EthereumAccessListTxType :: EthereumTxType where
  "EthereumAccessListTxType = 1"

definition EthereumDynamicFeeTxType :: EthereumTxType where
  "EthereumDynamicFeeTxType = 2"

definition EthereumTxType_String :: "EthereumTxType \<Rightarrow> string" where
  "EthereumTxType_String e =
     (if e = EthereumLegacyTxType then ''EthereumLegacyTxType''
      else if e = EthereumAccessListTxType then ''EthereumAccessListTxType''
      else if e = EthereumDynamicFeeTxType then ''EthereumDynamicFeeTxType''
      else '''')"

subsection \<open>Errors\<close>

text \<open>
  Every error value the code builds is a constructor: the sentinel
  \<^verbatim>\<open>ErrTxTypeNotSupported\<close>, \<^verbatim>\<open>errors.New\<close>, \<^verbatim>\<open>errors.Wrap\<close> and \<^verbatim>\<open>errors.Wrapf\<close> (format and
  arguments kept apart), the three constructors of the \<^verbatim>\<open>errs\<close> package that \<^verbatim>\<open>Validate\<close>
  uses, the decoding failure of the byte format (and the exhaustion of the recursion
  budget of the decoder, which is shown below never to happen), and the run-time panic
  of a method call through a nil interface or a nil pointer. A message is a literal, a
  \<^verbatim>\<open>fmt.Sprintf\<close> call (format and arguments kept apart) or the text \<^verbatim>\<open>err.Error()\<close> of
  another error.
\<close>

datatype arg = ArgNat nat | ArgString string

datatype error =
    ErrTxTypeNotSupported
  | ErrorsNew string
  | Wrap error string
  | Wrapf error string "arg list"
  | FormatError string
  | FuelExhausted
  | TxValidationError msg
  | FeeValidation msg
  | NonPositiveAmount int string
  | NilDereference
and msg =
    Str string
  | Sprintf string "arg list"
  | ErrorText error

subsection \<open>Big integers\<close>

text \<open>\<^verbatim>\<open>big.Int.BitLen\<close>: the length in bits of the absolute value; 0 for 0.\<close>

fun bitlen :: "nat \<Rightarrow> nat" where
  "bitlen n = (if n = 0 then 0 else Suc (bitlen (n div 2)))"

declare bitlen.simps [simp del]

definition BitLen :: "int \<Rightarrow> nat" where
  "BitLen x = bitlen (nat \<bar>x\<bar>)"

text \<open>\<^verbatim>\<open>big.Int.Uint64\<close>: the low 64 bits of the absolute value.\<close>

definition Uint64 :: "int \<Rightarrow> uint64" where
  "Uint64 x = of_nat (nat \<bar>x\<bar>)"

text \<open>The big integer zero the validator compares the value with.\<close>

definition big0 :: int where
  "big0 = 0"

text \<open>
  Modelled from the spec: the constant \<^verbatim>\<open>ethereumGWei\<close> is declared outside the file; the
  gas price rule names 10 times 10^9 units, so one GWei is 10^9.
\<close>
definition ethereumGWei :: nat where
  "ethereumGWei = 1000000000"

text \<open>\<^verbatim>\<open>EthereumGasPrice\<close> is a constant GasPrice which equals 10GWei.\<close>
definition EthereumGasPrice :: nat where
  "EthereumGasPrice = 10 * ethereumGWei"

text \<open>
  Modelled from the spec: \<^verbatim>\<open>EthereumWeiToWavelet\<close> is declared outside the file. The call
  site shows its type (a big integer in, an \<^verbatim>\<open>int64\<close> and an error out) and calls the
  failure "too many waves"; the spec calls it a fixed-point conversion of the value to
  the native unit of the ledger. Wei have 18 decimals and wavelets 8, so the conversion
  divides by 10^10, truncating as Go's integer quotient does, and fails when the quotient
  does not fit the signed 64-bit result.
\<close>
definition diffEthWaves :: int where
  "diffEthWaves = 10000000000"

definition EthereumWeiToWavelet :: "int \<Rightarrow> error + int" where
  "EthereumWeiToWavelet wei =
     (let quo = sgn wei * (\<bar>wei\<bar> div diffEthWaves)
      in if quo < - (2 ^ 63) \<or> 2 ^ 63 \<le> quo
         then Inl (ErrorsNew ''too many waves: the amount does not fit 64 bits'')
         else Inr quo)"

subsection \<open>The three variants\<close>

text \<open>
  Modelled from the spec: the variant structs and their accessors are declared outside
  the file. The spec gives the field lists: the legacy variant holds
  \<^verbatim>\<open>[nonce, gasPrice, gasLimit, to, value, data, v, r, s]\<close>, the access-list variant adds
  the chain id and the access list, the dynamic-fee variant replaces the gas price by
  the tip cap and the fee cap. The recipient is optional. The accessor signatures of the
  interface \<^verbatim>\<open>EthereumTxData\<close> fix the types: nonce and gas are \<^verbatim>\<open>uint64\<close>, the prices, the
  value and the scalars are big integers, an address is 20 bytes and a storage key 32.
  The scalar V of the legacy variant is a pointer the code tests against nil.
\<close>

type_synonym EthereumAddress = bytes
type_synonym EthereumAccessList = "(EthereumAddress \<times> bytes list) list"

record EthereumLegacyTx =
  ltx_Nonce :: uint64
  ltx_GasPrice :: int
  ltx_Gas :: uint64
  ltx_To :: "EthereumAddress option"
  ltx_Value :: int
  ltx_Data :: bytes
  ltx_V :: "int option"
  ltx_R :: int
  ltx_S :: int

record EthereumAccessListTx =
  altx_ChainID :: int
  altx_Nonce :: uint64
  altx_GasPrice :: int
  altx_Gas :: uint64
  altx_To :: "EthereumAddress option"
  altx_Value :: int
  altx_Data :: bytes
  altx_AccessList :: EthereumAccessList
  altx_V :: int
  altx_R :: int
  altx_S :: int

record EthereumDynamicFeeTx =
  dftx_ChainID :: int
  dftx_Nonce :: uint64
  dftx_GasTipCap :: int
  dftx_GasFeeCap :: int
  dftx_Gas :: uint64
  dftx_To :: "EthereumAddress option"
  dftx_Value :: int
  dftx_Data :: bytes
  dftx_AccessList :: EthereumAccessList
  dftx_V :: int
  dftx_R :: int
  dftx_S :: int

text \<open>A value of the interface \<^verbatim>\<open>EthereumTxData\<close> is one of the three structs.\<close>

datatype EthereumTxData =
    LegacyTx EthereumLegacyTx
  | AccessListTx EthereumAccessListTx
  | DynamicFeeTx EthereumDynamicFeeTx

fun ethereumTxType :: "EthereumTxData \<Rightarrow> EthereumTxType" where
  "ethereumTxType (LegacyTx _) = EthereumLegacyTxType"
| "ethereumTxType (AccessListTx _) = EthereumAccessListTxType"
| "ethereumTxType (DynamicFeeTx _) = EthereumDynamicFeeTxType"

subsection \<open>Replay protection and the accessors of the variants\<close>

text \<open>\<^verbatim>\<open>isProtectedV\<close>: anything not 27 or 28 (or 0 or 1) is considered protected.\<close>

definition isProtectedV :: "int \<Rightarrow> bool" where
  "isProtectedV V =
     (if BitLen V \<le> 8
      then (let v = Uint64 V in v \<noteq> 27 \<and> v \<noteq> 28 \<and> v \<noteq> 1 \<and> v \<noteq> 0)
      else True)"

text \<open>
  Modelled from the spec: the chain id of the legacy variant is recovered from v by the
  replay-protection encoding v = 2 * chainID + 35 or 36, and is zero for a transaction
  that is not replay-protected (the comment of \<^verbatim>\<open>ChainId\<close>). Reading a nil v panics.
\<close>
definition deriveChainId :: "int option \<Rightarrow> error + int" where
  "deriveChainId V =
     (case V of
        None \<Rightarrow> Inl NilDereference
      | Some v \<Rightarrow> if isProtectedV v then Inr ((v - 35) div 2) else Inr 0)"

text \<open>
  Modelled from the spec: the accessors of the variants read the fields. The chain id of
  a typed variant is its field, the access list of the legacy variant is empty. The spec
  leaves open what the gas price of the dynamic-fee variant is; it is the fee cap here,
  and no property below depends on it.
\<close>

fun chainID :: "EthereumTxData \<Rightarrow> error + int" where
  "chainID (LegacyTx t) = deriveChainId (ltx_V t)"
| "chainID (AccessListTx t) = Inr (altx_ChainID t)"
| "chainID (DynamicFeeTx t) = Inr (dftx_ChainID t)"

fun accessList :: "EthereumTxData \<Rightarrow> EthereumAccessList" where
  "accessList (LegacyTx t) = []"
| "accessList (AccessListTx t) = altx_AccessList t"
| "accessList (DynamicFeeTx t) = dftx_AccessList t"

fun data :: "EthereumTxData \<Rightarrow> bytes" where
  "data (LegacyTx t) = ltx_Data t"
| "data (AccessListTx t) = altx_Data t"
| "data (DynamicFeeTx t) = dftx_Data t"

fun gas :: "EthereumTxData \<Rightarrow> uint64" where
  "gas (LegacyTx t) = ltx_Gas t"
| "gas (AccessListTx t) = altx_Gas t"
| "gas (DynamicFeeTx t) = dftx_Gas t"

fun gasPrice :: "EthereumTxData \<Rightarrow> int" where
  "gasPrice (LegacyTx t) = ltx_GasPrice t"
| "gasPrice (AccessListTx t) = altx_GasPrice t"
| "gasPrice (DynamicFeeTx t) = dftx_GasFeeCap t"

fun "value" :: "EthereumTxData \<Rightarrow> int" where
  "value (LegacyTx t) = ltx_Value t"
| "value (AccessListTx t) = altx_Value t"
| "value (DynamicFeeTx t) = dftx_Value t"

fun nonce :: "EthereumTxData \<Rightarrow> uint64" where
  "nonce (LegacyTx t) = ltx_Nonce t"
| "nonce (AccessListTx t) = altx_Nonce t"
| "nonce (DynamicFeeTx t) = dftx_Nonce t"

fun to :: "EthereumTxData \<Rightarrow> EthereumAddress option" where
  "to (LegacyTx t) = ltx_To t"
| "to (AccessListTx t) = altx_To t"
| "to (DynamicFeeTx t) = dftx_To t"

subsection \<open>The canonical byte format\<close>

text \<open>
  Modelled from the spec: the parser and the arena of the byte format belong to a library
  outside the repository. The spec describes a recursive length-prefixed encoding of byte
  strings and nested lists, with integers as minimal big-endian byte strings (zero is
  the empty string), and a decoder that fails on truncated input, on a malformed length
  prefix and on a non-canonical integer. The format of the ecosystem is RLP: a single
  byte below 0x80 is its own encoding; a string of at most 55 bytes is prefixed by
  0x80 + length, a longer one by 0xb7 + length of the length and the big-endian length;
  lists use 0xc0 and 0xf7 in the same way on the concatenated encodings of their items.
\<close>

datatype rlp = RBytes bytes | RList "rlp list"

fun be_bytes :: "nat \<Rightarrow> bytes" where
  "be_bytes n = (if n = 0 then [] else be_bytes (n div 256) @ [of_nat (n mod 256)])"

declare be_bytes.simps [simp del]

definition be_nat :: "bytes \<Rightarrow> nat" where
  "be_nat bs = foldl (\<lambda>a b. 256 * a + unat b) 0 bs"

definition rlp_header :: "nat \<Rightarrow> nat \<Rightarrow> bytes" where
  "rlp_header base n =
     (if n \<le> 55 then [of_nat (base + n)]
      else (let l = be_bytes n in of_nat (base + 55 + length l) # l))"

fun rlp_encode :: "rlp \<Rightarrow> bytes" where
  "rlp_encode (RBytes bs) =
     (if length bs = 1 \<and> unat (hd bs) < 128 then bs else rlp_header 128 (length bs) @ bs)"
| "rlp_encode (RList xs) =
     (let payload = concat (map rlp_encode xs) in rlp_header 192 (length payload) @ payload)"

text \<open>
  The header of the first item of the input: whether it is a list, its payload, and the
  bytes after it.
\<close>

definition take_payload :: "bool \<Rightarrow> nat \<Rightarrow> bytes \<Rightarrow> error + (bool \<times> bytes \<times> bytes)" where
  "take_payload is_list n r =
     (if length r < n then Inl (FormatError ''truncated input'')
      else Inr (is_list, take n r, drop n r))"

definition long_payload :: "bool \<Rightarrow> nat \<Rightarrow> bytes \<Rightarrow> error + (bool \<times> bytes \<times> bytes)" where
  "long_payload is_list ll r =
     (if length r < ll then Inl (FormatError ''truncated input'')
      else (let lb = take ll r; n = be_nat lb in
        if unat (hd lb) = 0 \<or> n \<le> 55 then Inl (FormatError ''malformed length prefix'')
        else take_payload is_list n (drop ll r)))"

definition read_header :: "bytes \<Rightarrow> error + (bool \<times> bytes \<times> bytes)" where
  "read_header bs =
     (case bs of
        [] \<Rightarrow> Inl (FormatError ''truncated input'')
      | b # r \<Rightarrow>
          (let c = unat b in
           if c < 128 then Inr (False, [b], r)
           else if c < 184 then
             (if c = 129 \<and> r \<noteq> [] \<and> unat (hd r) < 128
              then Inl (FormatError ''malformed length prefix'')
              else take_payload False (c - 128) r)
           else if c < 192 then long_payload False (c - 183) r
           else if c < 248 then take_payload True (c - 192) r
           else long_payload True (c - 247) r))"

text \<open>
  The decoder recurses on the payload of a list and along its items. Its recursion
  budget is a number; \<^verbatim>\<open>Parse\<close> passes one that no input exhausts.
\<close>

fun rlp_decode_item :: "nat \<Rightarrow> bytes \<Rightarrow> error + (rlp \<times> bytes)"
  and rlp_decode_items :: "nat \<Rightarrow> bytes \<Rightarrow> error + rlp list" where
  "rlp_decode_item 0 bs = Inl FuelExhausted"
| "rlp_decode_item (Suc f) bs =
     (case read_header bs of
        Inl e \<Rightarrow> Inl e
      | Inr (is_list, payload, rest) \<Rightarrow>
          if is_list then
            (case rlp_decode_items f payload of
               Inl e \<Rightarrow> Inl e
             | Inr xs \<Rightarrow> Inr (RList xs, rest))
          else Inr (RBytes payload, rest))"
| "rlp_decode_items 0 bs = Inl FuelExhausted"
| "rlp_decode_items (Suc f) bs =
     (if bs = [] then Inr []
      else (case rlp_decode_item f bs of
              Inl e \<Rightarrow> Inl e
            | Inr (x, rest) \<Rightarrow>
                (case rlp_decode_items f rest of
                   Inl e \<Rightarrow> Inl e
                 | Inr xs \<Rightarrow> Inr (x # xs))))"

definition Parse :: "bytes \<Rightarrow> error + rlp" where
  "Parse bs =
     (case rlp_decode_item (2 * length bs + 1) bs of
        Inl e \<Rightarrow> Inl e
      | Inr (v, rest) \<Rightarrow> if rest = [] then Inr v else Inl (FormatError ''trailing bytes''))"

subsection \<open>Fields in the byte format\<close>

text \<open>
  Modelled from the spec: the marshalling hooks of the variants are declared outside the
  file. Integers are minimal big-endian strings, an absent recipient is the empty
  string, the access list is a list of pairs of an address and a list of storage keys.
\<close>

definition bindE :: "error + 'a \<Rightarrow> ('a \<Rightarrow> error + 'b) \<Rightarrow> error + 'b" where
  "bindE m f = (case m of Inl e \<Rightarrow> Inl e | Inr x \<Rightarrow> f x)"

fun mapE :: "('a \<Rightarrow> error + 'b) \<Rightarrow> 'a list \<Rightarrow> error + 'b list" where
  "mapE f [] = Inr []"
| "mapE f (x # xs) = bindE (f x) (\<lambda>y. bindE (mapE f xs) (\<lambda>ys. Inr (y # ys)))"

definition NewUint :: "uint64 \<Rightarrow> rlp" where
  "NewUint w = RBytes (be_bytes (unat w))"

definition NewBigInt :: "int \<Rightarrow> rlp" where
  "NewBigInt b = RBytes (be_bytes (nat \<bar>b\<bar>))"

definition NewAddress :: "EthereumAddress option \<Rightarrow> rlp" where
  "NewAddress a = (case a of None \<Rightarrow> RBytes [] | Some bs \<Rightarrow> RBytes bs)"

definition NewAccessList :: "EthereumAccessList \<Rightarrow> rlp" where
  "NewAccessList al = RList (map (\<lambda>(a, keys). RList [RBytes a, RList (map RBytes keys)]) al)"

definition GetBytes :: "rlp \<Rightarrow> error + bytes" where
  "GetBytes v = (case v of RBytes bs \<Rightarrow> Inr bs | RList _ \<Rightarrow> Inl (FormatError ''not a byte string''))"

definition GetElems :: "rlp \<Rightarrow> error + rlp list" where
  "GetElems v = (case v of RList xs \<Rightarrow> Inr xs | RBytes _ \<Rightarrow> Inl (FormatError ''not a list''))"

definition canonical_int :: "bytes \<Rightarrow> bool" where
  "canonical_int bs = (bs = [] \<or> unat (hd bs) \<noteq> 0)"

definition GetUint64 :: "rlp \<Rightarrow> error + uint64" where
  "GetUint64 v =
     bindE (GetBytes v) (\<lambda>bs.
       if 8 < length bs then Inl (FormatError ''integer too long'')
       else if \<not> canonical_int bs then Inl (FormatError ''non-canonical integer'')
       else Inr (of_nat (be_nat bs)))"

definition GetBigInt :: "rlp \<Rightarrow> error + int" where
  "GetBigInt v =
     bindE (GetBytes v) (\<lambda>bs.
       if \<not> canonical_int bs then Inl (FormatError ''non-canonical integer'')
       else Inr (int (be_nat bs)))"

definition GetAddress :: "rlp \<Rightarrow> error + EthereumAddress option" where
  "GetAddress v =
     bindE (GetBytes v) (\<lambda>bs.
       if bs = [] then Inr None
       else if length bs = 20 then Inr (Some bs)
       else Inl (FormatError ''wrong address length''))"

definition GetStorageKey :: "rlp \<Rightarrow> error + bytes" where
  "GetStorageKey v =
     bindE (GetBytes v) (\<lambda>bs.
       if length bs = 32 then Inr bs else Inl (FormatError ''wrong storage key length''))"

definition GetAccessTuple :: "rlp \<Rightarrow> error + (EthereumAddress \<times> bytes list)" where
  "GetAccessTuple v =
     bindE (GetElems v) (\<lambda>xs.
       if length xs \<noteq> 2 then Inl (FormatError ''wrong access tuple'')
       else bindE (GetBytes (xs ! 0)) (\<lambda>a.
         if length a \<noteq> 20 then Inl (FormatError ''wrong address length'')
         else bindE (GetElems (xs ! 1)) (\<lambda>ks.
           bindE (mapE GetStorageKey ks) (\<lambda>keys. Inr (a, keys)))))"

definition GetAccessList :: "rlp \<Rightarrow> error + EthereumAccessList" where
  "GetAccessList v = bindE (GetElems v) (mapE GetAccessTuple)"

definition ltx_marshalToFastRLP :: "EthereumLegacyTx \<Rightarrow> rlp" where
  "ltx_marshalToFastRLP t =
     RList [NewUint (ltx_Nonce t), NewBigInt (ltx_GasPrice t), NewUint (ltx_Gas t),
            NewAddress (ltx_To t), NewBigInt (ltx_Value t), RBytes (ltx_Data t),
            (case ltx_V t of None \<Rightarrow> RBytes [] | Some v \<Rightarrow> NewBigInt v),
            NewBigInt (ltx_R t), NewBigInt (ltx_S t)]"

definition ltx_unmarshalFromFastRLP :: "rlp \<Rightarrow> error + EthereumLegacyTx" where
  "ltx_unmarshalFromFastRLP v =
     bindE (GetElems v) (\<lambda>xs.
       if length xs \<noteq> 9 then Inl (FormatError ''wrong number of fields'')
       else
         bindE (GetUint64 (xs ! 0)) (\<lambda>n.
         bindE (GetBigInt (xs ! 1)) (\<lambda>gp.
         bindE (GetUint64 (xs ! 2)) (\<lambda>g.
         bindE (GetAddress (xs ! 3)) (\<lambda>a.
         bindE (GetBigInt (xs ! 4)) (\<lambda>val.
         bindE (GetBytes (xs ! 5)) (\<lambda>d.
         bindE (GetBigInt (xs ! 6)) (\<lambda>v.
         bindE (GetBigInt (xs ! 7)) (\<lambda>r.
         bindE (GetBigInt (xs ! 8)) (\<lambda>s.
           Inr \<lparr>ltx_Nonce = n, ltx_GasPrice = gp, ltx_Gas = g, ltx_To = a,
                ltx_Value = val, ltx_Data = d, ltx_V = Some v, ltx_R = r,
                ltx_S = s\<rparr>))))))))))"

definition altx_marshalToFastRLP :: "EthereumAccessListTx \<Rightarrow> rlp" where
  "altx_marshalToFastRLP t =
     RList [NewBigInt (altx_ChainID t), NewUint (altx_Nonce t), NewBigInt (altx_GasPrice t),
            NewUint (altx_Gas t), NewAddress (altx_To t), NewBigInt (altx_Value t),
            RBytes (altx_Data t), NewAccessList (altx_AccessList t),
            NewBigInt (altx_V t), NewBigInt (altx_R t), NewBigInt (altx_S t)]"

definition altx_unmarshalFromFastRLP :: "rlp \<Rightarrow> error + EthereumAccessListTx" where
  "altx_unmarshalFromFastRLP v =
     bindE (GetElems v) (\<lambda>xs.
       if length xs \<noteq> 11 then Inl (FormatError ''wrong number of fields'')
       else
         bindE (GetBigInt (xs ! 0)) (\<lambda>c.
         bindE (GetUint64 (xs ! 1)) (\<lambda>n.
         bindE (GetBigInt (xs ! 2)) (\<lambda>gp.
         bindE (GetUint64 (xs ! 3)) (\<lambda>g.
         bindE (GetAddress (xs ! 4)) (\<lambda>a.
         bindE (GetBigInt (xs ! 5)) (\<lambda>val.
         bindE (GetBytes (xs ! 6)) (\<lambda>d.
         bindE (GetAccessList (xs ! 7)) (\<lambda>al.
         bindE (GetBigInt (xs ! 8)) (\<lambda>v.
         bindE (GetBigInt (xs ! 9)) (\<lambda>r.
         bindE (GetBigInt (xs ! 10)) (\<lambda>s.
           Inr \<lparr>altx_ChainID = c, altx_Nonce = n, altx_GasPrice = gp, altx_Gas = g,
                altx_To = a, altx_Value = val, altx_Data = d, altx_AccessList = al,
                altx_V = v, altx_R = r, altx_S = s\<rparr>))))))))))))"

definition altx_DecodeRLP :: "bytes \<Rightarrow> error + EthereumAccessListTx" where
  "altx_DecodeRLP rlpData = bindE (Parse rlpData) altx_unmarshalFromFastRLP"

definition dftx_marshalToFastRLP :: "EthereumDynamicFeeTx \<Rightarrow> rlp" where
  "dftx_marshalToFastRLP t =
     RList [NewBigInt (dftx_ChainID t), NewUint (dftx_Nonce t), NewBigInt (dftx_GasTipCap t),
            NewBigInt (dftx_GasFeeCap t), NewUint (dftx_Gas t), NewAddress (dftx_To t),
            NewBigInt (dftx_Value t), RBytes (dftx_Data t),
            NewAccessList (dftx_AccessList t),
            NewBigInt (dftx_V t), NewBigInt (dftx_R t), NewBigInt (dftx_S t)]"

definition dftx_unmarshalFromFastRLP :: "rlp \<Rightarrow> error + EthereumDynamicFeeTx" where
  "dftx_unmarshalFromFastRLP v =
     bindE (GetElems v) (\<lambda>xs.
       if length xs \<noteq> 12 then Inl (FormatError ''wrong number of fields'')
       else
         bindE (GetBigInt (xs ! 0)) (\<lambda>c.
         bindE (GetUint64 (xs ! 1)) (\<lambda>n.
         bindE (GetBigInt (xs ! 2)) (\<lambda>tip.
         bindE (GetBigInt (xs ! 3)) (\<lambda>cap.
         bindE (GetUint64 (xs ! 4)) (\<lambda>g.
         bindE (GetAddress (xs ! 5)) (\<lambda>a.
         bindE (GetBigInt (xs ! 6)) (\<lambda>val.
         bindE (GetBytes (xs ! 7)) (\<lambda>d.
         bindE (GetAccessList (xs ! 8)) (\<lambda>al.
         bindE (GetBigInt (xs ! 9)) (\<lambda>v.
         bindE (GetBigInt (xs ! 10)) (\<lambda>r.
         bindE (GetBigInt (xs ! 11)) (\<lambda>s.
           Inr \<lparr>dftx_ChainID = c, dftx_Nonce = n, dftx_GasTipCap = tip,
                dftx_GasFeeCap = cap, dftx_Gas = g, dftx_To = a, dftx_Value = val,
                dftx_Data = d, dftx_AccessList = al, dftx_V = v, dftx_R = r,
                dftx_S = s\<rparr>)))))))))))))"

definition dftx_DecodeRLP :: "bytes \<Rightarrow> error + EthereumDynamicFeeTx" where
  "dftx_DecodeRLP rlpData = bindE (Parse rlpData) dftx_unmarshalFromFastRLP"

fun marshalToFastRLP :: "EthereumTxData \<Rightarrow> rlp" where
  "marshalToFastRLP (LegacyTx t) = ltx_marshalToFastRLP t"
| "marshalToFastRLP (AccessListTx t) = altx_marshalToFastRLP t"
| "marshalToFastRLP (DynamicFeeTx t) = dftx_marshalToFastRLP t"

subsection \<open>The envelope\<close>

text \<open>
  \<^verbatim>\<open>inner\<close> is an interface value and \<^verbatim>\<open>id\<close> a pointer to a digest: both may be
  nil. \<^verbatim>\<open>senderPK\<close> is an atomic cell, empty until a key is stored. A digest and a key
  are byte strings. The field \<^verbatim>\<open>id\<close> is written with a prime, the identity function of
  HOL having the name.
\<close>

record EthereumTransaction =
  inner :: "EthereumTxData option"
  innerBinarySize :: int
  id' :: "bytes option"
  senderPK :: "bytes option"

text \<open>The accessors of the envelope call the method of \<^verbatim>\<open>inner\<close>; on a nil \<^verbatim>\<open>inner\<close> they panic.\<close>

definition on_inner :: "EthereumTransaction \<Rightarrow> (EthereumTxData \<Rightarrow> 'a) \<Rightarrow> error + 'a" where
  "on_inner tx f = (case inner tx of None \<Rightarrow> Inl NilDereference | Some d \<Rightarrow> Inr (f d))"

definition EthereumTxType_of :: "EthereumTransaction \<Rightarrow> error + EthereumTxType" where
  "EthereumTxType_of tx = on_inner tx ethereumTxType"

definition ChainId :: "EthereumTransaction \<Rightarrow> error + int" where
  "ChainId tx = (case inner tx of None \<Rightarrow> Inl NilDereference | Some d \<Rightarrow> chainID d)"

definition Data :: "EthereumTransaction \<Rightarrow> error + bytes" where
  "Data tx = on_inner tx data"

definition Gas :: "EthereumTransaction \<Rightarrow> error + uint64" where
  "Gas tx = on_inner tx gas"

definition GasPrice :: "EthereumTransaction \<Rightarrow> error + int" where
  "GasPrice tx = on_inner tx gasPrice"

definition Value :: "EthereumTransaction \<Rightarrow> error + int" where
  "Value tx = on_inner tx value"

definition Nonce :: "EthereumTransaction \<Rightarrow> error + uint64" where
  "Nonce tx = on_inner tx nonce"

definition To :: "EthereumTransaction \<Rightarrow> error + EthereumAddress option" where
  "To tx = on_inner tx to"

text \<open>
  \<^verbatim>\<open>Protected\<close> switches on the dynamic type of \<^verbatim>\<open>inner\<close>; a nil interface takes the default
  branch.
\<close>

definition Protected :: "EthereumTransaction \<Rightarrow> bool" where
  "Protected tx =
     (case inner tx of
        Some (LegacyTx t) \<Rightarrow> (case ltx_V t of None \<Rightarrow> False | Some v \<Rightarrow> isProtectedV v)
      | _ \<Rightarrow> True)"

subsection \<open>The envelope codec\<close>

text \<open>
  \<^verbatim>\<open>decodeTypedCanonical\<close> reads the receiver nowhere and assigns nothing; it is a function
  of the bytes.
\<close>

definition decodeTypedCanonical :: "bytes \<Rightarrow> error + EthereumTxData" where
  "decodeTypedCanonical canonicalData =
     (case canonicalData of
        [] \<Rightarrow> Inl (ErrorsNew ''empty typed transaction bytes'')
      | txType # rlpData \<Rightarrow>
          if txType = EthereumAccessListTxType then
            (case altx_DecodeRLP rlpData of
               Inl err \<Rightarrow> Inl (Wrapf err ''failed to unmarshal ethereum tx from RLP, ethereumTxType %q''
                                  [ArgString (EthereumTxType_String EthereumAccessListTxType)])
             | Inr inner' \<Rightarrow> Inr (AccessListTx inner'))
          else if txType = EthereumDynamicFeeTxType then
            (case dftx_DecodeRLP rlpData of
               Inl err \<Rightarrow> Inl (Wrapf err ''failed to unmarshal ethereum tx from RLP, ethereumTxType %q''
                                  [ArgString (EthereumTxType_String EthereumDynamicFeeTxType)])
             | Inr inner' \<Rightarrow> Inr (DynamicFeeTx inner'))
          else Inl ErrTxTypeNotSupported)"

text \<open>
  \<^verbatim>\<open>DecodeCanonical\<close> returns the error (\<^verbatim>\<open>None\<close> for nil) and the envelope after the call.
\<close>

definition DecodeCanonical :: "bytes \<Rightarrow> EthereumTransaction \<Rightarrow> error option \<times> EthereumTransaction" where
  "DecodeCanonical canonicalData tx =
     (if length canonicalData > 0 \<and> unat (hd canonicalData) > 127 then
        (case Parse canonicalData of
           Inl err \<Rightarrow> (Some (Wrap err ''failed to parse canonical representation as RLP''), tx)
         | Inr v \<Rightarrow>
             (case ltx_unmarshalFromFastRLP v of
                Inl err \<Rightarrow>
                  (Some (Wrapf err
                     ''failed to unmarshal from RLP ethereum legacy transaction, ethereumTxType %q''
                     [ArgString (EthereumTxType_String EthereumLegacyTxType)]), tx)
              | Inr inner' \<Rightarrow>
                  (None, tx\<lparr>inner := Some (LegacyTx inner'),
                             innerBinarySize := int (length canonicalData)\<rparr>)))
      else
        (case decodeTypedCanonical canonicalData of
           Inl err \<Rightarrow>
             (Some (Wrap err
                ''failed to unmarshal from canonical representation ethereum typed transaction''), tx)
         | Inr inner' \<Rightarrow>
             (None, tx\<lparr>inner := Some inner',
                        innerBinarySize := int (length canonicalData)\<rparr>)))"

definition encodeTypedCanonical :: "EthereumTxData \<Rightarrow> bytes" where
  "encodeTypedCanonical d = ethereumTxType d # rlp_encode (marshalToFastRLP d)"

text \<open>\<^verbatim>\<open>EncodeCanonical\<close> assigns nothing; on a nil \<^verbatim>\<open>inner\<close> its first method call panics.\<close>

definition EncodeCanonical :: "EthereumTransaction \<Rightarrow> error + bytes" where
  "EncodeCanonical tx =
     (case inner tx of
        None \<Rightarrow> Inl NilDereference
      | Some d \<Rightarrow>
          if ethereumTxType d = EthereumLegacyTxType
          then Inr (rlp_encode (marshalToFastRLP d))
          else Inr (encodeTypedCanonical d))"

subsection \<open>Identity\<close>

text \<open>
  The hash \<^verbatim>\<open>Keccak256EthereumHash\<close> is declared outside the file; it is a parameter
  here, a function from bytes to a digest. The scheme argument is ignored by the source.
\<close>

definition GenerateID ::
  "(bytes \<Rightarrow> bytes) \<Rightarrow> Scheme \<Rightarrow> EthereumTransaction \<Rightarrow> error option \<times> EthereumTransaction" where
  "GenerateID Keccak256EthereumHash scheme tx =
     (if id' tx \<noteq> None then (None, tx)
      else (case EncodeCanonical tx of
              Inl err \<Rightarrow> (Some err, tx)
            | Inr body \<Rightarrow> (None, tx\<lparr>id' := Some (Keccak256EthereumHash body)\<rparr>)))"

definition GetID ::
  "(bytes \<Rightarrow> bytes) \<Rightarrow> Scheme \<Rightarrow> EthereumTransaction \<Rightarrow> (error + bytes) \<times> EthereumTransaction" where
  "GetID Keccak256EthereumHash scheme tx =
     (let (r, tx') = (if id' tx = None then GenerateID Keccak256EthereumHash scheme tx
                      else (None, tx))
      in case r of
           Some err \<Rightarrow> (Inl err, tx')
         | None \<Rightarrow>
             (case id' tx' of
                None \<Rightarrow> (Inl NilDereference, tx')
              | Some digest \<Rightarrow> (Inr digest, tx')))"

subsection \<open>Validation\<close>

text \<open>
  \<^verbatim>\<open>Validate\<close> returns the error (\<^verbatim>\<open>None\<close> for nil, in which case the transaction returned is
  the receiver) and the envelope after the call. The first accessor call, \<^verbatim>\<open>tx.ChainId()\<close>,
  panics on a nil \<^verbatim>\<open>inner\<close>; after it \<^verbatim>\<open>inner\<close> is known to be set, and the accessors are
  read from it.
\<close>

definition Validate :: "Scheme \<Rightarrow> EthereumTransaction \<Rightarrow> error option \<times> EthereumTransaction" where
  "Validate scheme tx =
     (case inner tx of
        None \<Rightarrow> (Some NilDereference, tx)
      | Some d \<Rightarrow>
     (case chainID d of
        Inl p \<Rightarrow> (Some p, tx)
      | Inr cid \<Rightarrow>
        if cid \<noteq> uint scheme then
          (let txChainID = Uint64 cid in
           (Some (TxValidationError (Sprintf
              ''Address belongs to another network: expected: %d(%c), actual: %d(%c)''
              [ArgNat (unat scheme), ArgNat (unat scheme),
               ArgNat (unat txChainID), ArgNat (unat txChainID)])), tx))
        else if ethereumTxType d \<noteq> EthereumLegacyTxType then
          (Some (TxValidationError (Str ''the ethereum transaction's type is not legacy tx'')), tx)
        else if innerBinarySize tx > 1024 * 1024 then
          (Some (TxValidationError (Str ''too big size of transaction'')), tx)
        else if gas d \<le> 0 then
          (Some (FeeValidation (Str ''insufficient fee'')), tx)
        else
          (case EthereumWeiToWavelet (value d) of
             Inl err \<Rightarrow> (Some (FeeValidation (ErrorText err)), tx)
           | Inr wavelets \<Rightarrow>
             if wavelets < 0 then
               (Some (NonPositiveAmount wavelets ''waves''), tx)
             else if value d = big0 \<and> length (data d) = 0 then
               (Some (TxValidationError (Str ''Transaction cancellation is not supported'')), tx)
             else if value d \<noteq> big0 \<and> length (data d) \<noteq> 0 then
               (Some (TxValidationError (Str ''Transaction should have either data or value'')), tx)
             else if gasPrice d \<noteq> int EthereumGasPrice then
               (Some (TxValidationError (Str ''Gas price must be 10 Gwei'')), tx)
             else if to d = None then
               (Some (TxValidationError (Str ''Contract creation transaction is not supported'')), tx)
             else if nonce d \<le> 0 then
               (Some (TxValidationError (Str ''invalid timestamp'')), tx)
             else (None, tx))))"

subsection \<open>Sample envelopes\<close>

text \<open>
  The zero value of the envelope struct, and one transaction of each variant on the
  network with the byte 87 (the letter W): a legacy transaction with v = 2 * 87 + 35,
  an access-list and a dynamic-fee transaction with one access tuple of one key.
\<close>

definition zero_tx :: EthereumTransaction where
  "zero_tx = \<lparr>inner = None, innerBinarySize = 0, id' = None, senderPK = None\<rparr>"

definition sample_address :: EthereumAddress where
  "sample_address = [17, 17, 17, 17, 17, 17, 17, 17, 17, 17, 17, 17, 17, 17, 17, 17, 17, 17, 17, 17]"

definition sample_key :: bytes where
  "sample_key = [1, 2, 3, 4, 5, 6, 7, 8, 9, 10, 11, 12, 13, 14, 15, 16,
                 17, 18, 19, 20, 21, 22, 23, 24, 25, 26, 27, 28, 29, 30, 31, 32]"

definition sample_ltx :: EthereumLegacyTx where
  "sample_ltx = \<lparr>ltx_Nonce = 1, ltx_GasPrice = 10000000000, ltx_Gas = 21000,
     ltx_To = Some sample_address, ltx_Value = 0, ltx_Data = [171, 205],
     ltx_V = Some 209, ltx_R = 5, ltx_S = 300\<rparr>"

definition sample_altx :: EthereumAccessListTx where
  "sample_altx = \<lparr>altx_ChainID = 87, altx_Nonce = 1, altx_GasPrice = 10000000000,
     altx_Gas = 21000, altx_To = Some sample_address, altx_Value = 0, altx_Data = [171, 205],
     altx_AccessList = [(sample_address, [sample_key])], altx_V = 1, altx_R = 5,
     altx_S = 300\<rparr>"

definition sample_dftx :: EthereumDynamicFeeTx where
  "sample_dftx = \<lparr>dftx_ChainID = 87, dftx_Nonce = 1, dftx_GasTipCap = 2,
     dftx_GasFeeCap = 10000000000, dftx_Gas = 21000, dftx_To = None, dftx_Value = 7,
     dftx_Data = [], dftx_AccessList = [(sample_address, [sample_key])], dftx_V = 0,
     dftx_R = 5, dftx_S = 300\<rparr>"

definition sample_tx :: EthereumTransaction where
  "sample_tx = \<lparr>inner = Some (LegacyTx sample_ltx), innerBinarySize = 42, id' = None,
     senderPK = None\<rparr>"

subsection \<open>The validator as a list of rules\<close>

text \<open>
  A rule is a condition that must hold and the error reported when it does not;
  \<^verbatim>\<open>first_failure\<close> reports the first rule of a list that fails.
\<close>

fun first_failure :: "(bool \<times> error) list \<Rightarrow> error option" where
  "first_failure [] = None"
| "first_failure ((holds, err) # rules) = (if holds then first_failure rules else Some err)"

text \<open>
  Modelled from the spec: the fixed-point conversion of rule 5 as the spec has it, a
  conversion that cannot fail: the quotient of the value by 10^10, wei having 18
  decimals and the native unit 8.
\<close>

definition spec_converted_amount :: "int \<Rightarrow> int" where
  "spec_converted_amount wei = sgn wei * (\<bar>wei\<bar> div diffEthWaves)"

text \<open>
  The ten rules in the words of the spec, each as the condition that must hold and the
  error reported when it does not. The fifth asks only that the converted value is not
  negative.
\<close>

definition spec_validation_rules ::
  "Scheme \<Rightarrow> int \<Rightarrow> int \<Rightarrow> EthereumTxData \<Rightarrow> (bool \<times> error) list" where
  "spec_validation_rules scheme cid sz d =
     [(cid = uint scheme,
         TxValidationError (Sprintf
           ''Address belongs to another network: expected: %d(%c), actual: %d(%c)''
           [ArgNat (unat scheme), ArgNat (unat scheme),
            ArgNat (unat (Uint64 cid)), ArgNat (unat (Uint64 cid))])),
      (ethereumTxType d = EthereumLegacyTxType,
         TxValidationError (Str ''the ethereum transaction's type is not legacy tx'')),
      (sz \<le> 1048576,
         TxValidationError (Str ''too big size of transaction'')),
      (0 < gas d,
         FeeValidation (Str ''insufficient fee'')),
      (0 \<le> spec_converted_amount (value d),
         NonPositiveAmount (spec_converted_amount (value d)) ''waves''),
      (\<not> (value d = 0 \<and> data d = []),
         TxValidationError (Str ''Transaction cancellation is not supported'')),
      (\<not> (value d \<noteq> 0 \<and> data d \<noteq> []),
         TxValidationError (Str ''Transaction should have either data or value'')),
      (gasPrice d = 10 * 10 ^ 9,
         TxValidationError (Str ''Gas price must be 10 Gwei'')),
      (to d \<noteq> None,
         TxValidationError (Str ''Contract creation transaction is not supported'')),
      (0 < nonce d,
         TxValidationError (Str ''invalid timestamp''))]"

text \<open>
  The same list with the conversion step as it is in the code for its fifth rule: the
  step fails with a fee-validation error carrying the text of the conversion error when
  the conversion fails, and with the non-positive-amount error when it yields a
  negative amount. The chain id and the recorded size of the envelope are arguments of
  both lists.
\<close>

definition validation_rules ::
  "Scheme \<Rightarrow> int \<Rightarrow> int \<Rightarrow> EthereumTxData \<Rightarrow> (bool \<times> error) list" where
  "validation_rules scheme cid sz d =
     [(cid = uint scheme,
         TxValidationError (Sprintf
           ''Address belongs to another network: expected: %d(%c), actual: %d(%c)''
           [ArgNat (unat scheme), ArgNat (unat scheme),
            ArgNat (unat (Uint64 cid)), ArgNat (unat (Uint64 cid))])),
      (ethereumTxType d = EthereumLegacyTxType,
         TxValidationError (Str ''the ethereum transaction's type is not legacy tx'')),
      (sz \<le> 1048576,
         TxValidationError (Str ''too big size of transaction'')),
      (0 < gas d,
         FeeValidation (Str ''insufficient fee'')),
      (case EthereumWeiToWavelet (value d) of
         Inl err \<Rightarrow> (False, FeeValidation (ErrorText err))
       | Inr wavelets \<Rightarrow> (0 \<le> wavelets, NonPositiveAmount wavelets ''waves'')),
      (\<not> (value d = 0 \<and> data d = []),
         TxValidationError (Str ''Transaction cancellation is not supported'')),
      (\<not> (value d \<noteq> 0 \<and> data d \<noteq> []),
         TxValidationError (Str ''Transaction should have either data or value'')),
      (gasPrice d = 10 * 10 ^ 9,
         TxValidationError (Str ''Gas price must be 10 Gwei'')),
      (to d \<noteq> None,
         TxValidationError (Str ''Contract creation transaction is not supported'')),
      (0 < nonce d,
         TxValidationError (Str ''invalid timestamp''))]"

subsection \<open>Sizes a slice can have\<close>

text \<open>
  The length of a Go slice is a machine integer, so every payload is shorter than 2^64
  bytes; the length prefix of the format then fits its eight bytes.
\<close>

fun rlp_ok :: "rlp \<Rightarrow> bool" where
  "rlp_ok (RBytes bs) = (length bs < 2 ^ 64)"
| "rlp_ok (RList xs) = (list_all rlp_ok xs \<and> length (concat (map rlp_encode xs)) < 2 ^ 64)"

subsection \<open>Valid variant instances\<close>

text \<open>
  What the byte format can express: integers are natural numbers, a recipient is absent
  or 20 bytes long, an access tuple holds an address of 20 bytes and keys of 32 bytes,
  and the scalar v of a legacy transaction is set.
\<close>

definition valid_address :: "EthereumAddress option \<Rightarrow> bool" where
  "valid_address a = (case a of None \<Rightarrow> True | Some bs \<Rightarrow> length bs = 20)"

definition valid_access_list :: "EthereumAccessList \<Rightarrow> bool" where
  "valid_access_list al =
     list_all (\<lambda>(a, keys). length a = 20 \<and> list_all (\<lambda>k. length k = 32) keys) al"

definition valid_ltx :: "EthereumLegacyTx \<Rightarrow> bool" where
  "valid_ltx t =
     (0 \<le> ltx_GasPrice t \<and> valid_address (ltx_To t) \<and> 0 \<le> ltx_Value t \<and>
      (case ltx_V t of None \<Rightarrow> False | Some v \<Rightarrow> 0 \<le> v) \<and>
      0 \<le> ltx_R t \<and> 0 \<le> ltx_S t)"

definition valid_altx :: "EthereumAccessListTx \<Rightarrow> bool" where
  "valid_altx t =
     (0 \<le> altx_ChainID t \<and> 0 \<le> altx_GasPrice t \<and> valid_address (altx_To t) \<and>
      0 \<le> altx_Value t \<and> valid_access_list (altx_AccessList t) \<and>
      0 \<le> altx_V t \<and> 0 \<le> altx_R t \<and> 0 \<le> altx_S t)"

definition valid_dftx :: "EthereumDynamicFeeTx \<Rightarrow> bool" where
  "valid_dftx t =
     (0 \<le> dftx_ChainID t \<and> 0 \<le> dftx_GasTipCap t \<and> 0 \<le> dftx_GasFeeCap t \<and>
      valid_address (dftx_To t) \<and> 0 \<le> dftx_Value t \<and>
      valid_access_list (dftx_AccessList t) \<and>
      0 \<le> dftx_V t \<and> 0 \<le> dftx_R t \<and> 0 \<le> dftx_S t)"

fun valid_txdata :: "EthereumTxData \<Rightarrow> bool" where
  "valid_txdata (LegacyTx t) = valid_ltx t"
| "valid_txdata (AccessListTx t) = valid_altx t"
| "valid_txdata (DynamicFeeTx t) = valid_dftx t"

subsection \<open>More sample envelopes\<close>

text \<open>
  The envelopes that decoding the canonical bytes of the typed samples into the zero
  envelope yields, with the bytes themselves; a legacy transaction whose data alone
  fill 1 MiB; and a legacy transfer of 2^63 * 10^10 wei.
\<close>

definition sample_ltx_bytes :: bytes where
  "sample_ltx_bytes =
     [233, 1, 133, 2, 84, 11, 228, 0, 130, 82, 8, 148, 17, 17, 17, 17, 17,
      17, 17, 17, 17, 17, 17, 17, 17, 17, 17, 17, 17, 17, 17, 17, 128, 130,
      171, 205, 129, 209, 5, 130, 1, 44]"

definition sample_altx_bytes :: bytes where
  "sample_altx_bytes =
     [1, 248, 99, 87, 1, 133, 2, 84, 11, 228, 0, 130, 82, 8, 148, 17, 17, 17,
      17, 17, 17, 17, 17, 17, 17, 17, 17, 17, 17, 17, 17, 17, 17, 17, 17,
      128, 130, 171, 205, 248, 56, 247, 148, 17, 17, 17, 17, 17, 17, 17, 17,
      17, 17, 17, 17, 17, 17, 17, 17, 17, 17, 17, 17, 225, 160, 1, 2, 3, 4,
      5, 6, 7, 8, 9, 10, 11, 12, 13, 14, 15, 16, 17, 18, 19, 20, 21, 22, 23,
      24, 25, 26, 27, 28, 29, 30, 31, 32, 1, 5, 130, 1, 44]"

definition sample_dftx_bytes :: bytes where
  "sample_dftx_bytes =
     [2, 248, 78, 87, 1, 2, 133, 2, 84, 11, 228, 0, 130, 82, 8, 128, 7, 128,
      248, 56, 247, 148, 17, 17, 17, 17, 17, 17, 17, 17, 17, 17, 17, 17, 17,
      17, 17, 17, 17, 17, 17, 17, 225, 160, 1, 2, 3, 4, 5, 6, 7, 8, 9, 10,
      11, 12, 13, 14, 15, 16, 17, 18, 19, 20, 21, 22, 23, 24, 25, 26, 27, 28,
      29, 30, 31, 32, 128, 5, 130, 1, 44]"

definition sample_al_tx :: EthereumTransaction where
  "sample_al_tx = \<lparr>inner = Some (AccessListTx sample_altx), innerBinarySize = 102, id' = None,
     senderPK = None\<rparr>"

definition sample_df_tx :: EthereumTransaction where
  "sample_df_tx = \<lparr>inner = Some (DynamicFeeTx sample_dftx), innerBinarySize = 81, id' = None,
     senderPK = None\<rparr>"

definition oversized_ltx :: EthereumLegacyTx where
  "oversized_ltx = sample_ltx\<lparr>ltx_Data := replicate 1048576 1\<rparr>"

definition oversized_tx :: EthereumTransaction where
  "oversized_tx = \<lparr>inner = Some (LegacyTx oversized_ltx), innerBinarySize = 1048622,
     id' = None, senderPK = None\<rparr>"

definition overflow_ltx :: EthereumLegacyTx where
  "overflow_ltx = sample_ltx\<lparr>ltx_Value := 92233720368547758080000000000, ltx_Data := []\<rparr>"

definition overflow_tx :: EthereumTransaction where
  "overflow_tx = \<lparr>inner = Some (LegacyTx overflow_ltx), innerBinarySize = 53,
     id' = None, senderPK = None\<rparr>"

subsection \<open>Scenario A of the spec\<close>

text \<open>
  A legacy transaction with value 0, non-empty data, a gas price of 10 GWei, a gas limit
  of 21000, a recipient, nonce 1 and the chain id of the target. The signature is not
  part of the scenario here: the validator does not consult it.
\<close>

definition scenario_A :: "Scheme \<Rightarrow> EthereumTransaction \<Rightarrow> bool" where
  "scenario_A scheme tx =
     (case inner tx of
        Some (LegacyTx t) \<Rightarrow>
          ltx_Value t = 0 \<and> ltx_Data t \<noteq> [] \<and> ltx_GasPrice t = 10 * 10 ^ 9 \<and>
          ltx_Gas t = 21000 \<and> ltx_To t \<noteq> None \<and> ltx_Nonce t = 1 \<and>
          chainID (LegacyTx t) = Inr (uint scheme)
      | _ \<Rightarrow> False)"

text \<open>A stand-in for the hash, used where a sample needs a concrete function.\<close>

definition sample_hash :: "bytes \<Rightarrow> bytes" where
  "sample_hash body = [of_nat (length body)]"

definition negative_ltx :: EthereumLegacyTx where
  "negative_ltx = sample_ltx\<lparr>ltx_Value := - 50000000000\<rparr>"

definition negative_tx :: EthereumTransaction where
  "negative_tx = \<lparr>inner = Some (LegacyTx negative_ltx), innerBinarySize = 47, id' = None,
     senderPK = None\<rparr>"



section \<open>Properties\<close>

subsection \<open>Bit length and the low 64 bits\<close>

lemma bitlen_le_iff: "bitlen n \<le> k \<longleftrightarrow> n < 2 ^ k"
proof (induction n arbitrary: k rule: bitlen.induct)
  case (1 n)
  show ?case
  proof (cases "n = 0")
    case True
    then show ?thesis by (simp add: bitlen.simps)
  next
    case False
    show ?thesis
    proof (cases k)
      case 0
      with False show ?thesis by (simp add: bitlen.simps)
    next
      case (Suc j)
      have "bitlen n \<le> Suc j \<longleftrightarrow> bitlen (n div 2) \<le> j"
        using False by (simp add: bitlen.simps [of n])
      also have "\<dots> \<longleftrightarrow> n div 2 < 2 ^ j"
        using "1.IH" [OF False] by simp
      also have "\<dots> \<longleftrightarrow> n < 2 ^ Suc j"
        by auto
      finally show ?thesis using Suc by simp
    qed
  qed
qed

lemma BitLen_le_8: "BitLen v \<le> 8 \<longleftrightarrow> \<bar>v\<bar> < 256"
  by (auto simp add: BitLen_def bitlen_le_iff)

lemma word64_of_nat_eq_iff:
  assumes "n < 2 ^ 64" "k < 2 ^ 64"
  shows "(of_nat n :: 64 word) = of_nat k \<longleftrightarrow> n = k"
  using assms by (simp only: word_unat_eq_iff unat_of_nat) simp

lemma Uint64_eq_iff:
  assumes "0 \<le> v" "v < 256" "k < 256"
  shows "Uint64 v = of_nat k \<longleftrightarrow> v = int k"
proof -
  have "nat \<bar>v\<bar> < 2 ^ 64" "k < 2 ^ 64" using assms by auto
  then have "Uint64 v = of_nat k \<longleftrightarrow> nat \<bar>v\<bar> = k"
    unfolding Uint64_def by (rule word64_of_nat_eq_iff)
  then show ?thesis using assms by auto
qed

lemma isProtectedV_small:
  assumes "0 \<le> v" "BitLen v \<le> 8"
  shows "isProtectedV v \<longleftrightarrow> v \<notin> {0, 1, 27, 28}"
proof -
  have b: "v < 256" using assms by (simp add: BitLen_le_8)
  have "Uint64 v = 27 \<longleftrightarrow> v = 27" using Uint64_eq_iff [OF assms(1) b, of 27] by simp
  moreover have "Uint64 v = 28 \<longleftrightarrow> v = 28" using Uint64_eq_iff [OF assms(1) b, of 28] by simp
  moreover have "Uint64 v = 1 \<longleftrightarrow> v = 1" using Uint64_eq_iff [OF assms(1) b, of 1] by simp
  moreover have "Uint64 v = 0 \<longleftrightarrow> v = 0" using Uint64_eq_iff [OF assms(1) b, of 0] by simp
  ultimately show ?thesis using assms(2) by (auto simp add: isProtectedV_def Let_def)
qed

subsection \<open>Replay protection\<close>

text \<open>
  C7. The replay-protection predicate is true for every access-list and every
  dynamic-fee transaction. For a legacy transaction whose scalar v is set (to a natural
  number, as every decoded scalar is) it is true iff v is chain-bound: with a bit length
  of at most 8, iff v is none of 0, 1, 27, 28; with a longer v, always.
\<close>

theorem Protected_replay_protection:
  "Protected (tx\<lparr>inner := Some (AccessListTx a)\<rparr>) \<and>
   Protected (tx\<lparr>inner := Some (DynamicFeeTx d)\<rparr>) \<and>
   (0 \<le> v \<longrightarrow>
      Protected (tx\<lparr>inner := Some (LegacyTx (t\<lparr>ltx_V := Some v\<rparr>))\<rparr>) =
        (if BitLen v \<le> 8 then v \<notin> {0, 1, 27, 28} else True))"
  using isProtectedV_small [of v]
  by (auto simp add: Protected_def isProtectedV_def)

theorem Protected_replay_protection_witness:
  "(0 :: int) \<le> 27 \<and>
   Protected (zero_tx\<lparr>inner := Some (AccessListTx sample_altx)\<rparr>) \<and>
   Protected (zero_tx\<lparr>inner := Some (DynamicFeeTx sample_dftx)\<rparr>) \<and>
   \<not> Protected (zero_tx\<lparr>inner := Some (LegacyTx (sample_ltx\<lparr>ltx_V := Some 27\<rparr>))\<rparr>)"
  using Protected_replay_protection
    [where tx = zero_tx and a = sample_altx and d = sample_dftx and v = 27 and t = sample_ltx]
  by (simp add: BitLen_le_8)

subsection \<open>Evaluation of the samples\<close>

lemma isProtectedV_209: "isProtectedV 209"
  by (simp add: isProtectedV_def BitLen_le_8 Uint64_def)

lemma deriveChainId_209: "deriveChainId (Some 209) = Inr 87"
  by (simp add: deriveChainId_def isProtectedV_209)

subsection \<open>The order of the validation rules\<close>

lemma word_le_0_iff: "(w :: 'a::len word) \<le> 0 \<longleftrightarrow> w = 0"
  by (simp add: word_le_nat_alt unat_eq_0)

lemma not_word_le_0: "\<not> (w :: 'a::len word) \<le> 0 \<longleftrightarrow> 0 < w"
  by (simp add: word_le_0_iff word_neq_0_conv)

lemma Validate_first_failure:
  assumes "inner tx = Some d" and "chainID d = Inr cid"
  shows "Validate scheme tx =
           (first_failure (validation_rules scheme cid (innerBinarySize tx) d), tx)"
proof -
  note defs = Validate_def validation_rules_def Let_def big0_def EthereumGasPrice_def
    ethereumGWei_def word_le_0_iff word_gt_0
  show ?thesis
  proof (cases "cid = uint scheme")
    case False
    then show ?thesis using assms  by (simp add: defs)
  next
    case c0: True
    show ?thesis
    proof (cases "ethereumTxType d = EthereumLegacyTxType")
      case False
      then show ?thesis using assms c0 by (simp add: defs)
    next
      case c1: True
      show ?thesis
      proof (cases "innerBinarySize tx \<le> 1048576")
        case False
        then show ?thesis using assms c0 c1 by (simp add: defs)
      next
        case c2: True
        show ?thesis
        proof (cases "gas d = 0")
          case True
          then show ?thesis using assms c0 c1 c2 by (simp add: defs)
        next
          case c3: False
          show ?thesis
          proof (cases "EthereumWeiToWavelet (value d)")
            case (Inl err)
            then show ?thesis using assms c0 c1 c2 c3 by (simp add: defs)
          next
            case c4: (Inr w)
            show ?thesis
            proof (cases "0 \<le> w")
              case False
              then show ?thesis using assms c0 c1 c2 c3 c4 by (simp add: defs)
            next
              case c5: True
              show ?thesis
              proof (cases "value d = 0 \<and> data d = []")
                case True
                then show ?thesis using assms c0 c1 c2 c3 c4 c5 by (simp add: defs)
              next
                case c6: False
                show ?thesis
                proof (cases "value d \<noteq> 0 \<and> data d \<noteq> []")
                  case True
                  then show ?thesis using assms c0 c1 c2 c3 c4 c5 c6 by (simp add: defs)
                next
                  case c7: False
                  show ?thesis
                  proof (cases "gasPrice d = 10000000000")
                    case False
                    then show ?thesis using assms c0 c1 c2 c3 c4 c5 c6 c7 by (simp add: defs)
                  next
                    case c8: True
                    show ?thesis
                    proof (cases "to d = None")
                      case True
                      then show ?thesis using assms c0 c1 c2 c3 c4 c5 c6 c7 c8 by (simp add: defs)
                    next
                      case c9: False
                      show ?thesis
                      proof (cases "nonce d = 0")
                        case True
                        then show ?thesis using assms c0 c1 c2 c3 c4 c5 c6 c7 c8 c9 by (simp add: defs)
                      next
                        case c10: False
                        show ?thesis using assms c0 c1 c2 c3 c4 c5 c6 c7 c8 c9 c10 by (simp add: defs)
                      qed
                    qed
                  qed
                qed
              qed
            qed
          qed
        qed
      qed
    qed
  qed
qed

lemma EthereumWeiToWavelet_Inr:
  "EthereumWeiToWavelet wei = Inr w \<Longrightarrow> w = spec_converted_amount wei"
  by (auto simp add: EthereumWeiToWavelet_def spec_converted_amount_def Let_def
      split: if_splits)

lemma validation_rules_spec:
  assumes "EthereumWeiToWavelet (value d) = Inr w"
  shows "validation_rules scheme cid sz d = spec_validation_rules scheme cid sz d"
  using assms EthereumWeiToWavelet_Inr [OF assms]
  by (simp add: validation_rules_def spec_validation_rules_def)

text \<open>
  C2, as amended. On an envelope whose payload is set and whose chain id can be read,
  the validator reports the first rule that fails of ten rules in the order of the spec,
  and nothing when all hold; the fifth of them is the conversion step, which fails with
  the non-positive-amount error on a negative amount and with a fee-validation error
  when the value cannot be converted. Whenever the value can be converted, these are the
  ten rules in the words of the spec. In particular an envelope with a chain id other
  than the target's and a recorded size above 1 MiB is rejected with the chain-id error.
\<close>

theorem Validate_first_failing_rule:
  assumes "inner tx = Some d" and "chainID d = Inr cid"
  shows "Validate scheme tx = (first_failure (validation_rules scheme cid (innerBinarySize tx) d), tx) \<and>
         (EthereumWeiToWavelet (value d) = Inr w \<longrightarrow>
            Validate scheme tx =
              (first_failure (spec_validation_rules scheme cid (innerBinarySize tx) d), tx)) \<and>
         (cid \<noteq> uint scheme \<and> 1048576 < innerBinarySize tx \<longrightarrow>
            fst (Validate scheme tx) =
              Some (TxValidationError (Sprintf
                ''Address belongs to another network: expected: %d(%c), actual: %d(%c)''
                [ArgNat (unat scheme), ArgNat (unat scheme),
                 ArgNat (unat (Uint64 cid)), ArgNat (unat (Uint64 cid))])))"
proof (intro conjI impI)
  show "Validate scheme tx = (first_failure (validation_rules scheme cid (innerBinarySize tx) d), tx)"
    by (rule Validate_first_failure [OF assms])
next
  assume "EthereumWeiToWavelet (value d) = Inr w"
  then show "Validate scheme tx =
      (first_failure (spec_validation_rules scheme cid (innerBinarySize tx) d), tx)"
    by (simp only: Validate_first_failure [OF assms] validation_rules_spec)
next
  assume "cid \<noteq> uint scheme \<and> 1048576 < innerBinarySize tx"
  then show "fst (Validate scheme tx) =
      Some (TxValidationError (Sprintf
        ''Address belongs to another network: expected: %d(%c), actual: %d(%c)''
        [ArgNat (unat scheme), ArgNat (unat scheme),
         ArgNat (unat (Uint64 cid)), ArgNat (unat (Uint64 cid))]))"
    using assms by (simp add: Validate_def Let_def)
qed

theorem Validate_first_failing_rule_witness:
  "inner sample_tx = Some (LegacyTx sample_ltx) \<and> chainID (LegacyTx sample_ltx) = Inr 87 \<and>
   (87 :: int) \<noteq> uint (84 :: byte) \<and>
   Validate 84 (sample_tx\<lparr>innerBinarySize := 2000000\<rparr>) =
     (Some (TxValidationError (Sprintf
        ''Address belongs to another network: expected: %d(%c), actual: %d(%c)''
        [ArgNat 84, ArgNat 84, ArgNat 87, ArgNat 87])), sample_tx\<lparr>innerBinarySize := 2000000\<rparr>) \<and>
   EthereumWeiToWavelet (value (LegacyTx sample_ltx)) = Inr 0 \<and>
   first_failure (spec_validation_rules 87 87 (innerBinarySize sample_tx) (LegacyTx sample_ltx))
     = None \<and>
   Validate 87 sample_tx = (None, sample_tx)"
proof -
  have i: "inner sample_tx = Some (LegacyTx sample_ltx)"
    "inner (sample_tx\<lparr>innerBinarySize := 2000000\<rparr>) = Some (LegacyTx sample_ltx)"
    by (simp_all add: sample_tx_def)
  have c: "chainID (LegacyTx sample_ltx) = Inr 87"
    by (simp add: sample_ltx_def deriveChainId_209)
  have w: "EthereumWeiToWavelet (value (LegacyTx sample_ltx)) = Inr 0"
    by (simp add: sample_ltx_def EthereumWeiToWavelet_def Let_def)
  have s: "first_failure (spec_validation_rules 87 87 (innerBinarySize sample_tx)
      (LegacyTx sample_ltx)) = None"
    by (simp add: spec_validation_rules_def spec_converted_amount_def sample_tx_def
        sample_ltx_def)
  have 1: "Validate 84 (sample_tx\<lparr>innerBinarySize := 2000000\<rparr>) =
     (Some (TxValidationError (Sprintf
        ''Address belongs to another network: expected: %d(%c), actual: %d(%c)''
        [ArgNat 84, ArgNat 84, ArgNat 87, ArgNat 87])), sample_tx\<lparr>innerBinarySize := 2000000\<rparr>)"
    using Validate_first_failing_rule [OF i(2) c, where scheme = 84 and w = 0]
    by (simp add: validation_rules_def Uint64_def)
  have 2: "Validate 87 sample_tx = (None, sample_tx)"
    using Validate_first_failing_rule
      [OF i(1) c, where scheme = 87 and w = 0, THEN conjunct2, THEN conjunct1, rule_format, OF w]
    by (simp only: s)
  show ?thesis by (simp only: i c w s 1 2 simp_thms) simp
qed

subsection \<open>No assignment before a failure\<close>

lemma snd_Validate: "snd (Validate scheme tx) = tx"
proof (cases "inner tx")
  case None
  then show ?thesis by (simp add: Validate_def)
next
  case (Some d)
  show ?thesis
  proof (cases "chainID d")
    case (Inl p)
    with Some show ?thesis by (simp add: Validate_def)
  next
    case (Inr cid)
    show ?thesis by (simp only: Validate_first_failure [OF Some Inr] snd_conv)
  qed
qed

lemma DecodeCanonical_legacy:
  assumes "bs \<noteq> []" and "127 < unat (hd bs)"
  shows "DecodeCanonical bs tx =
     (case Parse bs of
        Inl err \<Rightarrow> (Some (Wrap err ''failed to parse canonical representation as RLP''), tx)
      | Inr v \<Rightarrow>
          (case ltx_unmarshalFromFastRLP v of
             Inl err \<Rightarrow>
               (Some (Wrapf err
                  ''failed to unmarshal from RLP ethereum legacy transaction, ethereumTxType %q''
                  [ArgString (EthereumTxType_String EthereumLegacyTxType)]), tx)
           | Inr t \<Rightarrow>
               (None, tx\<lparr>inner := Some (LegacyTx t), innerBinarySize := int (length bs)\<rparr>)))"
  using assms by (simp add: DecodeCanonical_def)

lemma DecodeCanonical_typed:
  assumes "bs = [] \<or> unat (hd bs) \<le> 127"
  shows "DecodeCanonical bs tx =
     (case decodeTypedCanonical bs of
        Inl err \<Rightarrow>
          (Some (Wrap err
             ''failed to unmarshal from canonical representation ethereum typed transaction''), tx)
      | Inr d \<Rightarrow> (None, tx\<lparr>inner := Some d, innerBinarySize := int (length bs)\<rparr>))"
proof -
  have "\<not> (length bs > 0 \<and> unat (hd bs) > 127)" using assms by auto
  then show ?thesis unfolding DecodeCanonical_def by (simp only: if_False)
qed

lemma snd_DecodeCanonical_error:
  assumes "fst (DecodeCanonical bs tx) \<noteq> None"
  shows "snd (DecodeCanonical bs tx) = tx"
proof (cases "bs \<noteq> [] \<and> 127 < unat (hd bs)")
  case True
  then show ?thesis
    using assms by (simp add: DecodeCanonical_legacy split: sum.splits)
next
  case False
  then have "bs = [] \<or> unat (hd bs) \<le> 127" by auto
  then show ?thesis
    using assms by (simp add: DecodeCanonical_typed split: sum.splits)
qed

text \<open>
  C9. When decoding fails the envelope after the call is the envelope before it: the
  payload and the recorded size are as they were. The validator leaves the envelope as
  it was, whether it fails or not; the identifier and the sender key are among the
  fields compared.
\<close>

theorem DecodeCanonical_Validate_atomic_on_failure:
  "(fst (DecodeCanonical bs tx) \<noteq> None \<longrightarrow> snd (DecodeCanonical bs tx) = tx) \<and>
   (fst (Validate scheme tx) \<noteq> None \<longrightarrow> snd (Validate scheme tx) = tx)"
  using snd_DecodeCanonical_error [of bs tx] snd_Validate [of scheme tx] by simp

theorem DecodeCanonical_Validate_atomic_on_failure_witness:
  "fst (DecodeCanonical [0] zero_tx) \<noteq> None \<and> snd (DecodeCanonical [0] zero_tx) = zero_tx \<and>
   fst (Validate 84 sample_tx) \<noteq> None \<and> snd (Validate 84 sample_tx) = sample_tx"
  using DecodeCanonical_Validate_atomic_on_failure
    [where bs = "[0]" and tx = zero_tx and scheme = 84]
    DecodeCanonical_Validate_atomic_on_failure
    [where bs = "[0]" and tx = sample_tx and scheme = 84]
  by (simp add: DecodeCanonical_def decodeTypedCanonical_def EthereumAccessListTxType_def
      EthereumDynamicFeeTxType_def Validate_def sample_tx_def sample_ltx_def
      deriveChainId_209 Let_def)

subsection \<open>The byte format: decoding inverts encoding\<close>

lemma be_nat_snoc: "be_nat (xs @ [b]) = 256 * be_nat xs + unat b"
  by (simp add: be_nat_def)

lemma unat_byte_of_nat: "n < 256 \<Longrightarrow> unat (of_nat n :: byte) = n"
  by (simp add: unat_of_nat)

lemma be_nat_be_bytes: "be_nat (be_bytes n) = n"
proof (induction n rule: be_bytes.induct)
  case (1 n)
  show ?case
  proof (cases "n = 0")
    case True
    then show ?thesis by (simp add: be_bytes.simps be_nat_def)
  next
    case False
    then have "be_bytes n = be_bytes (n div 256) @ [of_nat (n mod 256)]"
      by (subst be_bytes.simps) simp
    then show ?thesis
      using "1.IH" [OF False] by (simp add: be_nat_snoc unat_byte_of_nat)
  qed
qed

lemma length_be_bytes_le: "n < 256 ^ k \<Longrightarrow> length (be_bytes n) \<le> k"
proof (induction n arbitrary: k rule: be_bytes.induct)
  case (1 n)
  show ?case
  proof (cases "n = 0")
    case True
    then show ?thesis by (simp add: be_bytes.simps)
  next
    case False
    then have eq: "be_bytes n = be_bytes (n div 256) @ [of_nat (n mod 256)]"
      by (subst be_bytes.simps) simp
    from False "1.prems" obtain j where k: "k = Suc j"
      by (cases k) auto
    with "1.prems" have "n div 256 < 256 ^ j"
      by (simp add: less_mult_imp_div_less mult.commute)
    then have "length (be_bytes (n div 256)) \<le> j"
      by (rule "1.IH" [OF False])
    then show ?thesis using eq k by simp
  qed
qed

lemma be_bytes_nonempty: "n \<noteq> 0 \<Longrightarrow> be_bytes n \<noteq> []"
  by (subst be_bytes.simps) simp

lemma hd_be_bytes: "n \<noteq> 0 \<Longrightarrow> unat (hd (be_bytes n)) \<noteq> 0"
proof (induction n rule: be_bytes.induct)
  case (1 n)
  then have eq: "be_bytes n = be_bytes (n div 256) @ [of_nat (n mod 256)]"
    by (subst be_bytes.simps) simp
  show ?case
  proof (cases "n div 256 = 0")
    case True
    then have "n < 256" by (simp add: div_eq_0_iff)
    with True "1.prems" eq show ?thesis
      by (simp add: be_bytes.simps [of 0] unat_byte_of_nat)
  next
    case False
    then have "be_bytes (n div 256) \<noteq> []" by (rule be_bytes_nonempty)
    then have "hd (be_bytes n) = hd (be_bytes (n div 256))"
      using eq by simp
    then show ?thesis using "1.IH" [OF "1.prems" False] by simp
  qed
qed

lemma canonical_int_be_bytes: "canonical_int (be_bytes n)"
  by (cases "n = 0") (simp_all add: canonical_int_def be_bytes.simps [of 0] hd_be_bytes)

lemma length_be_bytes_long:
  assumes "55 < n" "n < 2 ^ 64"
  shows "1 \<le> length (be_bytes n)" "length (be_bytes n) \<le> 8"
proof -
  have "be_bytes n \<noteq> []" using assms by (intro be_bytes_nonempty) simp
  then show "1 \<le> length (be_bytes n)" by (cases "be_bytes n") simp_all
  have "n < 256 ^ 8" using assms by simp
  then show "length (be_bytes n) \<le> 8" by (rule length_be_bytes_le)
qed

lemma take_payload_append:
  "take_payload k (length p) (p @ rest) = Inr (k, p, rest)"
  by (simp add: take_payload_def)

lemma unat_byte_numeral_add:
  assumes "numeral a + n < (256 :: nat)"
  shows "unat (numeral a + of_nat n :: byte) = numeral a + n"
proof -
  have "unat (of_nat (numeral a + n) :: byte) = numeral a + n"
    using assms by (rule unat_byte_of_nat)
  then show ?thesis by simp
qed

lemma long_payload_append:
  assumes "55 < length p" "length p < 2 ^ 64"
  shows "long_payload k (length (be_bytes (length p))) (be_bytes (length p) @ p @ rest)
           = Inr (k, p, rest)"
proof -
  have "length p \<noteq> 0" using assms by auto
  then have "unat (hd (be_bytes (length p))) \<noteq> 0" by (rule hd_be_bytes)
  then show ?thesis
    using assms
    by (simp add: long_payload_def Let_def be_nat_be_bytes take_payload_append)
qed

lemma read_header_list:
  assumes "length p < 2 ^ 64"
  shows "read_header (rlp_header 192 (length p) @ p @ rest) = Inr (True, p, rest)"
proof (cases "length p \<le> 55")
  case True
  then have "unat (192 + of_nat (length p) :: byte) = 192 + length p"
    by (intro unat_byte_numeral_add) simp
  with True show ?thesis
    by (simp add: rlp_header_def read_header_def Let_def take_payload_append)
next
  case False
  then have long: "55 < length p" by simp
  note l = length_be_bytes_long [OF long assms]
  have u: "unat (247 + of_nat (length (be_bytes (length p))) :: byte)
             = 247 + length (be_bytes (length p))"
    using l by (intro unat_byte_numeral_add) simp
  have ne: "be_bytes (length p) \<noteq> []" using l by auto
  show ?thesis
    using False l ne long_payload_append [OF long assms, of True rest]
    by (simp add: rlp_header_def read_header_def Let_def u)
qed

lemma read_header_bytes:
  assumes "length bs < 2 ^ 64"
  shows "read_header (rlp_encode (RBytes bs) @ rest) = Inr (False, bs, rest)"
proof (cases "length bs = 1 \<and> unat (hd bs) < 128")
  case True
  then obtain b where "bs = [b]" by (cases bs) auto
  with True show ?thesis by (simp add: read_header_def)
next
  case single: False
  then have enc: "rlp_encode (RBytes bs) = rlp_header 128 (length bs) @ bs"
    by auto
  show ?thesis
  proof (cases "length bs \<le> 55")
    case True
    then have u: "unat (128 + of_nat (length bs) :: byte) = 128 + length bs"
      by (intro unat_byte_numeral_add) simp
    have "\<not> (128 + length bs = 129 \<and> bs @ rest \<noteq> [] \<and> unat (hd (bs @ rest)) < 128)"
      using single by (cases bs) auto
    with True u show ?thesis
      unfolding enc
      by (simp add: rlp_header_def read_header_def Let_def take_payload_append)
  next
    case False
    then have long: "55 < length bs" by simp
    note l = length_be_bytes_long [OF long assms]
    have u: "unat (183 + of_nat (length (be_bytes (length bs))) :: byte)
               = 183 + length (be_bytes (length bs))"
      using l by (intro unat_byte_numeral_add) simp
    have ne: "be_bytes (length bs) \<noteq> []" using l by auto
    show ?thesis
      unfolding enc
      using False l ne long_payload_append [OF long assms, of False rest]
      by (simp add: rlp_header_def read_header_def Let_def u)
  qed
qed

lemma rlp_header_nonempty: "rlp_header base n \<noteq> []"
  by (simp add: rlp_header_def Let_def)

lemma rlp_encode_nonempty: "rlp_encode v \<noteq> []"
  by (cases v) (auto simp add: Let_def rlp_header_nonempty)

lemma length_rlp_encode_pos: "0 < length (rlp_encode v)"
  using rlp_encode_nonempty [of v] by simp

lemma rlp_encode_RList:
  "rlp_encode (RList xs) =
     rlp_header 192 (length (concat (map rlp_encode xs))) @ concat (map rlp_encode xs)"
  by (simp add: Let_def)

lemma rlp_decode_items_encode:
  assumes items: "\<And>x f rest. x \<in> set xs \<Longrightarrow> 2 * length (rlp_encode x) \<le> f \<Longrightarrow>
             rlp_decode_item f (rlp_encode x @ rest) = Inr (x, rest)"
    and fuel: "2 * length (concat (map rlp_encode xs)) + 1 \<le> f"
  shows "rlp_decode_items f (concat (map rlp_encode xs)) = Inr xs"
  using assms
proof (induction xs arbitrary: f)
  case Nil
  then obtain g where "f = Suc g" by (cases f) auto
  then show ?case by simp
next
  case (Cons x xs)
  from Cons.prems(2) obtain g where f: "f = Suc g" by (cases f) auto
  have pos: "0 < length (rlp_encode x)" by (rule length_rlp_encode_pos)
  have len: "length (concat (map rlp_encode (x # xs)))
               = length (rlp_encode x) + length (concat (map rlp_encode xs))"
    by simp
  have fx: "2 * length (rlp_encode x) \<le> g"
    using Cons.prems(2) unfolding f len by arith
  have fxs: "2 * length (concat (map rlp_encode xs)) + 1 \<le> g"
    using Cons.prems(2) pos unfolding f len by arith
  have x: "rlp_decode_item g (rlp_encode x @ concat (map rlp_encode xs))
             = Inr (x, concat (map rlp_encode xs))"
    by (rule Cons.prems(1) [OF _ fx]) simp
  have xs: "rlp_decode_items g (concat (map rlp_encode xs)) = Inr xs"
    by (rule Cons.IH [OF _ fxs]) (rule Cons.prems(1), simp_all)
  show ?case
    using x xs by (simp add: f rlp_encode_nonempty)
qed

lemma rlp_decode_item_encode:
  assumes "rlp_ok v" and "2 * length (rlp_encode v) \<le> f"
  shows "rlp_decode_item f (rlp_encode v @ rest) = Inr (v, rest)"
  using assms
proof (induction v arbitrary: f rest)
  case (RBytes bs)
  have "0 < length (rlp_encode (RBytes bs))" by (rule length_rlp_encode_pos)
  with RBytes.prems(2) obtain g where f: "f = Suc g" by (cases f) auto
  have "read_header (rlp_encode (RBytes bs) @ rest) = Inr (False, bs, rest)"
    using RBytes.prems(1) by (intro read_header_bytes) simp
  then show ?case by (simp only: f rlp_decode_item.simps) simp
next
  case (RList xs)
  let ?p = "concat (map rlp_encode xs)"
  have ok: "length ?p < 2 ^ 64" and all: "list_all rlp_ok xs"
    using RList.prems(1) by simp_all
  have hpos: "0 < length (rlp_header 192 (length ?p))"
    using rlp_header_nonempty [of 192 "length ?p"] by simp
  have len: "length (rlp_encode (RList xs)) = length (rlp_header 192 (length ?p)) + length ?p"
    by (simp add: Let_def)
  from RList.prems(2) hpos obtain g where f: "f = Suc g"
    unfolding len by (cases f) auto
  have fuel: "2 * length ?p + 1 \<le> g"
    using RList.prems(2) hpos unfolding f len by arith
  have hdr: "read_header (rlp_encode (RList xs) @ rest) = Inr (True, ?p, rest)"
    using read_header_list [OF ok, of rest] by (simp add: Let_def)
  have items: "rlp_decode_items g ?p = Inr xs"
  proof (rule rlp_decode_items_encode [OF _ fuel])
    fix x f' rest'
    assume "x \<in> set xs" and "2 * length (rlp_encode x) \<le> f'"
    moreover from \<open>x \<in> set xs\<close> all have "rlp_ok x" by (simp add: list_all_iff)
    ultimately show "rlp_decode_item f' (rlp_encode x @ rest') = Inr (x, rest')"
      by (intro RList.IH)
  qed
  show ?case
    unfolding f rlp_decode_item.simps hdr by (simp add: items)
qed

lemma Parse_rlp_encode:
  assumes "rlp_ok v"
  shows "Parse (rlp_encode v) = Inr v"
  using rlp_decode_item_encode [OF assms, of "2 * length (rlp_encode v) + 1" "[]"]
  by (simp add: Parse_def)

lemma length_rlp_encode_RBytes: "length bs \<le> length (rlp_encode (RBytes bs))"
  by simp

lemma length_concat_member:
  "x \<in> set xs \<Longrightarrow> length (f x) \<le> length (concat (map f xs))"
  by (induction xs) auto

lemma rlp_ok_of_length:
  "length (rlp_encode v) < 2 ^ 64 \<Longrightarrow> rlp_ok v"
proof (induction v)
  case (RBytes bs)
  then show ?case using length_rlp_encode_RBytes [of bs] by simp
next
  case (RList xs)
  let ?p = "concat (map rlp_encode xs)"
  have p: "length ?p < 2 ^ 64"
    using RList.prems by (simp add: Let_def)
  have "rlp_ok x" if "x \<in> set xs" for x
  proof (rule RList.IH [OF that])
    have "length (rlp_encode x) \<le> length ?p"
      using that by (rule length_concat_member)
    with p show "length (rlp_encode x) < 2 ^ 64" by simp
  qed
  then show ?case using p by (simp add: list_all_iff)
qed

subsection \<open>The recursion budget of the parser is never exhausted\<close>

lemma take_payload_Inr:
  assumes "take_payload k n r = Inr (k', p, rest)"
  shows "k' = k \<and> length p + length rest = length r"
  using assms by (auto simp add: take_payload_def split: if_splits)

lemma take_payload_not_fuel: "take_payload k n r \<noteq> Inl FuelExhausted"
  by (simp add: take_payload_def)

lemma long_payload_Inr:
  assumes "long_payload k ll r = Inr (k', p, rest)"
  shows "k' = k \<and> length p + length rest \<le> length r"
proof -
  from assms have "take_payload k (be_nat (take ll r)) (drop ll r) = Inr (k', p, rest)"
    by (simp add: long_payload_def Let_def split: if_splits)
  from take_payload_Inr [OF this] show ?thesis by simp
qed

lemma long_payload_not_fuel: "long_payload k ll r \<noteq> Inl FuelExhausted"
  by (simp add: long_payload_def Let_def take_payload_not_fuel)

lemma read_header_not_fuel: "read_header bs \<noteq> Inl FuelExhausted"
  by (cases bs)
     (simp_all add: read_header_def Let_def take_payload_not_fuel long_payload_not_fuel)

lemma read_header_Inr:
  assumes "read_header bs = Inr (is_list, p, rest)"
  shows "length rest < length bs \<and> (is_list \<longrightarrow> length p < length bs)"
proof (cases bs)
  case Nil
  with assms show ?thesis by (simp add: read_header_def)
next
  case (Cons b r)
  show ?thesis
    using assms unfolding Cons read_header_def
    by (auto simp add: Let_def split: if_splits
        dest!: take_payload_Inr long_payload_Inr)
qed

lemma rlp_decode_item_rest:
  assumes "rlp_decode_item f bs = Inr (v, rest)"
  shows "length rest < length bs"
proof (cases f)
  case 0
  with assms show ?thesis by simp
next
  case (Suc g)
  with assms obtain is_list p where "read_header bs = Inr (is_list, p, rest)"
    by (auto split: sum.splits if_splits)
  from read_header_Inr [OF this] show ?thesis by simp
qed

lemma rlp_decode_fuel:
  "(2 * length bs + 1 \<le> f \<longrightarrow> rlp_decode_item f bs \<noteq> Inl FuelExhausted) \<and>
   (2 * length bs + 2 \<le> f \<longrightarrow> rlp_decode_items f bs \<noteq> Inl FuelExhausted)"
proof (induction f arbitrary: bs)
  case 0
  show ?case by simp
next
  case (Suc g)
  have item: "rlp_decode_item (Suc g) bs \<noteq> Inl FuelExhausted"
    if fuel: "2 * length bs + 1 \<le> Suc g"
  proof (cases "read_header bs")
    case (Inl e)
    with read_header_not_fuel [of bs] show ?thesis by simp
  next
    case (Inr h)
    then obtain is_list p rest where h: "read_header bs = Inr (is_list, p, rest)"
      by (cases h) auto
    show ?thesis
    proof (cases is_list)
      case False
      with h show ?thesis by simp
    next
      case True
      with read_header_Inr [OF h] have "length p < length bs" by simp
      with fuel have "2 * length p + 2 \<le> g" by arith
      with Suc.IH [of p] have "rlp_decode_items g p \<noteq> Inl FuelExhausted" by simp
      with h True show ?thesis by (auto split: sum.splits)
    qed
  qed
  have items: "rlp_decode_items (Suc g) bs \<noteq> Inl FuelExhausted"
    if fuel: "2 * length bs + 2 \<le> Suc g"
  proof (cases "bs = []")
    case True
    then show ?thesis by simp
  next
    case False
    from fuel have "2 * length bs + 1 \<le> g" by arith
    with Suc.IH [of bs] have first: "rlp_decode_item g bs \<noteq> Inl FuelExhausted" by simp
    show ?thesis
    proof (cases "rlp_decode_item g bs")
      case (Inl e)
      with first False show ?thesis by simp
    next
      case (Inr r)
      then obtain x rest where r: "rlp_decode_item g bs = Inr (x, rest)" by (cases r) auto
      from rlp_decode_item_rest [OF r] fuel have "2 * length rest + 2 \<le> g" by arith
      with Suc.IH [of rest] have "rlp_decode_items g rest \<noteq> Inl FuelExhausted" by simp
      with r False show ?thesis by (auto split: sum.splits)
    qed
  qed
  from item items show ?case by blast
qed

lemma Parse_not_FuelExhausted: "Parse bs \<noteq> Inl FuelExhausted"
proof -
  define f where "f = 2 * length bs + 1"
  have "rlp_decode_item f bs \<noteq> Inl FuelExhausted"
    using rlp_decode_fuel [of bs f] by (simp add: f_def)
  moreover have "Parse bs =
      (case rlp_decode_item f bs of
         Inl e \<Rightarrow> Inl e
       | Inr (v, rest) \<Rightarrow> if rest = [] then Inr v else Inl (FormatError ''trailing bytes''))"
    by (simp only: Parse_def f_def)
  ultimately show ?thesis
    by (cases "rlp_decode_item f bs") (auto split: if_splits)
qed

subsection \<open>The accessors of the envelope\<close>

lemma accessors_of_inner:
  assumes "inner tx = Some d"
  shows "ChainId tx = chainID d" and "EthereumTxType_of tx = Inr (ethereumTxType d)"
    and "Data tx = Inr (data d)" and "Gas tx = Inr (gas d)"
    and "GasPrice tx = Inr (gasPrice d)" and "Value tx = Inr (value d)"
    and "Nonce tx = Inr (nonce d)" and "To tx = Inr (to d)"
  using assms
  by (simp_all add: ChainId_def EthereumTxType_of_def Data_def Gas_def GasPrice_def
      Value_def Nonce_def To_def on_inner_def)

subsection \<open>Fields and variants: unmarshalling inverts marshalling\<close>

lemma bindE_Inr [simp]: "bindE (Inr x) f = f x"
  by (simp add: bindE_def)

lemma bindE_Inl [simp]: "bindE (Inl e) f = Inl e"
  by (simp add: bindE_def)

lemma GetUint64_NewUint: "GetUint64 (NewUint w) = Inr w"
proof -
  have "unat w < 256 ^ 8"
    using unsigned_less [of w, where 'a = nat] by simp
  then have "length (be_bytes (unat w)) \<le> 8" by (rule length_be_bytes_le)
  then show ?thesis
    by (simp add: GetUint64_def NewUint_def GetBytes_def canonical_int_be_bytes
        be_nat_be_bytes)
qed

lemma GetBigInt_NewBigInt: "0 \<le> v \<Longrightarrow> GetBigInt (NewBigInt v) = Inr v"
  by (simp add: GetBigInt_def NewBigInt_def GetBytes_def canonical_int_be_bytes
      be_nat_be_bytes)

lemma GetAddress_NewAddress: "valid_address a \<Longrightarrow> GetAddress (NewAddress a) = Inr a"
  by (cases a) (auto simp add: valid_address_def GetAddress_def NewAddress_def GetBytes_def)

lemma mapE_GetStorageKey:
  "list_all (\<lambda>k. length k = 32) keys \<Longrightarrow> mapE GetStorageKey (map RBytes keys) = Inr keys"
  by (induction keys) (simp_all add: GetStorageKey_def GetBytes_def)

lemma GetAccessTuple_encode:
  "length a = 20 \<Longrightarrow> list_all (\<lambda>k. length k = 32) keys \<Longrightarrow>
   GetAccessTuple (RList [RBytes a, RList (map RBytes keys)]) = Inr (a, keys)"
  by (simp add: GetAccessTuple_def GetElems_def GetBytes_def mapE_GetStorageKey)

lemma GetAccessList_NewAccessList:
  "valid_access_list al \<Longrightarrow> GetAccessList (NewAccessList al) = Inr al"
proof -
  assume "valid_access_list al"
  then have "mapE GetAccessTuple
      (map (\<lambda>(a, keys). RList [RBytes a, RList (map RBytes keys)]) al) = Inr al"
    by (induction al) (auto simp add: valid_access_list_def GetAccessTuple_encode)
  then show ?thesis
    by (simp add: GetAccessList_def NewAccessList_def GetElems_def)
qed

lemmas field_roundtrip = GetUint64_NewUint GetBigInt_NewBigInt GetAddress_NewAddress
  GetAccessList_NewAccessList

lemma ltx_unmarshal_marshal:
  assumes "valid_ltx t"
  shows "ltx_unmarshalFromFastRLP (ltx_marshalToFastRLP t) = Inr t"
proof -
  obtain v where v: "ltx_V t = Some v" "0 \<le> v"
    using assms by (auto simp add: valid_ltx_def split: option.splits)
  show ?thesis
    using assms v
    by (simp add: ltx_unmarshalFromFastRLP_def ltx_marshalToFastRLP_def GetElems_def
        valid_ltx_def field_roundtrip GetBytes_def)
qed

lemma altx_unmarshal_marshal:
  assumes "valid_altx t"
  shows "altx_unmarshalFromFastRLP (altx_marshalToFastRLP t) = Inr t"
  using assms
  by (simp add: altx_unmarshalFromFastRLP_def altx_marshalToFastRLP_def GetElems_def
      valid_altx_def field_roundtrip GetBytes_def)

lemma dftx_unmarshal_marshal:
  assumes "valid_dftx t"
  shows "dftx_unmarshalFromFastRLP (dftx_marshalToFastRLP t) = Inr t"
  using assms
  by (simp add: dftx_unmarshalFromFastRLP_def dftx_marshalToFastRLP_def GetElems_def
      valid_dftx_def field_roundtrip GetBytes_def)

lemma hd_rlp_header_192:
  assumes "n < 2 ^ 64"
  shows "127 < unat (hd (rlp_header 192 n @ p))"
proof (cases "n \<le> 55")
  case True
  then have "unat (192 + of_nat n :: byte) = 192 + n"
    by (intro unat_byte_numeral_add) simp
  with True show ?thesis by (simp add: rlp_header_def)
next
  case False
  then have "55 < n" by simp
  note l = length_be_bytes_long [OF this assms]
  have "unat (247 + of_nat (length (be_bytes n)) :: byte) = 247 + length (be_bytes n)"
    using l by (intro unat_byte_numeral_add) simp
  with False show ?thesis by (simp add: rlp_header_def Let_def)
qed

lemma length_payload_le: "length (concat (map rlp_encode xs)) \<le> length (rlp_encode (RList xs))"
  by (simp add: Let_def)

lemma DecodeCanonical_legacy_encode:
  assumes "valid_ltx t" and "length (rlp_encode (ltx_marshalToFastRLP t)) < 2 ^ 64"
  shows "DecodeCanonical (rlp_encode (ltx_marshalToFastRLP t)) tx =
           (None, tx\<lparr>inner := Some (LegacyTx t),
                      innerBinarySize := int (length (rlp_encode (ltx_marshalToFastRLP t)))\<rparr>)"
proof -
  let ?v = "ltx_marshalToFastRLP t"
  obtain xs where v: "?v = RList xs" by (simp add: ltx_marshalToFastRLP_def)
  have "length (concat (map rlp_encode xs)) < 2 ^ 64"
    using assms(2) length_payload_le [of xs] unfolding v by simp
  then have hd: "127 < unat (hd (rlp_encode ?v))"
    unfolding v by (simp add: Let_def hd_rlp_header_192)
  have ne: "rlp_encode ?v \<noteq> []" by (rule rlp_encode_nonempty)
  have parse: "Parse (rlp_encode ?v) = Inr ?v"
    by (rule Parse_rlp_encode [OF rlp_ok_of_length [OF assms(2)]])
  show ?thesis
    by (simp add: DecodeCanonical_legacy [OF ne hd] parse ltx_unmarshal_marshal [OF assms(1)])
qed

lemma DecodeCanonical_accesslist_encode:
  assumes "valid_altx t" and "length (rlp_encode (altx_marshalToFastRLP t)) < 2 ^ 64"
  shows "DecodeCanonical (1 # rlp_encode (altx_marshalToFastRLP t)) tx =
           (None, tx\<lparr>inner := Some (AccessListTx t),
                      innerBinarySize := int (length (1 # rlp_encode (altx_marshalToFastRLP t)))\<rparr>)"
proof -
  have parse: "Parse (rlp_encode (altx_marshalToFastRLP t)) = Inr (altx_marshalToFastRLP t)"
    by (rule Parse_rlp_encode [OF rlp_ok_of_length [OF assms(2)]])
  have "decodeTypedCanonical (1 # rlp_encode (altx_marshalToFastRLP t)) = Inr (AccessListTx t)"
    by (simp add: decodeTypedCanonical_def EthereumAccessListTxType_def altx_DecodeRLP_def
        parse altx_unmarshal_marshal [OF assms(1)])
  then show ?thesis by (simp add: DecodeCanonical_typed)
qed

lemma DecodeCanonical_dynamicfee_encode:
  assumes "valid_dftx t" and "length (rlp_encode (dftx_marshalToFastRLP t)) < 2 ^ 64"
  shows "DecodeCanonical (2 # rlp_encode (dftx_marshalToFastRLP t)) tx =
           (None, tx\<lparr>inner := Some (DynamicFeeTx t),
                      innerBinarySize := int (length (2 # rlp_encode (dftx_marshalToFastRLP t)))\<rparr>)"
proof -
  have parse: "Parse (rlp_encode (dftx_marshalToFastRLP t)) = Inr (dftx_marshalToFastRLP t)"
    by (rule Parse_rlp_encode [OF rlp_ok_of_length [OF assms(2)]])
  have "decodeTypedCanonical (2 # rlp_encode (dftx_marshalToFastRLP t)) = Inr (DynamicFeeTx t)"
    by (simp add: decodeTypedCanonical_def EthereumAccessListTxType_def
        EthereumDynamicFeeTxType_def dftx_DecodeRLP_def
        parse dftx_unmarshal_marshal [OF assms(1)])
  then show ?thesis by (simp add: DecodeCanonical_typed)
qed

subsection \<open>The canonical bytes of the samples\<close>

lemma be_bytes_0: "be_bytes 0 = []"
  by (simp add: be_bytes.simps)

lemma be_bytes_numeral:
  "be_bytes (numeral k) = be_bytes (numeral k div 256) @ [of_nat (numeral k mod 256)]"
  by (subst be_bytes.simps) simp

lemma be_bytes_1: "be_bytes (Suc 0) = [1]"
  by (subst be_bytes.simps) (simp add: be_bytes_0)

lemmas enc_defs = ltx_marshalToFastRLP_def altx_marshalToFastRLP_def dftx_marshalToFastRLP_def
  NewUint_def NewBigInt_def NewAddress_def NewAccessList_def
  rlp_header_def be_bytes_0 be_bytes_1 be_bytes_numeral numeral_2_eq_2 [symmetric] Let_def

lemma encode_sample_ltx: "rlp_encode (ltx_marshalToFastRLP sample_ltx) = sample_ltx_bytes"
  by (simp add: enc_defs sample_ltx_def sample_address_def sample_ltx_bytes_def)

lemma encode_sample_altx:
  "1 # rlp_encode (altx_marshalToFastRLP sample_altx) = sample_altx_bytes"
  by (simp add: enc_defs sample_altx_def sample_address_def sample_key_def
      sample_altx_bytes_def)

lemma encode_sample_dftx:
  "2 # rlp_encode (dftx_marshalToFastRLP sample_dftx) = sample_dftx_bytes"
  by (simp add: enc_defs sample_dftx_def sample_address_def sample_key_def
      sample_dftx_bytes_def)

lemma valid_samples:
  "valid_ltx sample_ltx" "valid_altx sample_altx" "valid_dftx sample_dftx"
  by (simp_all add: valid_ltx_def valid_altx_def valid_dftx_def valid_address_def
      valid_access_list_def sample_ltx_def sample_altx_def sample_dftx_def
      sample_address_def sample_key_def)

lemma length_encode_oversized:
  "length (rlp_encode (ltx_marshalToFastRLP oversized_ltx)) = 1048622"
  by (simp add: enc_defs oversized_ltx_def sample_ltx_def sample_address_def)

lemma length_encode_overflow:
  "length (rlp_encode (ltx_marshalToFastRLP overflow_ltx)) = 53"
  by (simp add: enc_defs overflow_ltx_def sample_ltx_def sample_address_def)

lemma Decode_oversized:
  "DecodeCanonical (rlp_encode (ltx_marshalToFastRLP oversized_ltx)) zero_tx = (None, oversized_tx)"
proof -
  have "valid_ltx oversized_ltx"
    by (simp add: valid_ltx_def valid_address_def oversized_ltx_def sample_ltx_def
        sample_address_def)
  then show ?thesis
    by (simp add: DecodeCanonical_legacy_encode length_encode_oversized zero_tx_def
        oversized_tx_def)
qed

lemma Decode_overflow:
  "DecodeCanonical (rlp_encode (ltx_marshalToFastRLP overflow_ltx)) zero_tx = (None, overflow_tx)"
proof -
  have "valid_ltx overflow_ltx"
    by (simp add: valid_ltx_def valid_address_def overflow_ltx_def sample_ltx_def
        sample_address_def)
  then show ?thesis
    by (simp add: DecodeCanonical_legacy_encode length_encode_overflow zero_tx_def
        overflow_tx_def)
qed

subsection \<open>Round trip\<close>

text \<open>
  C1. For every valid instance of a variant, held by an envelope x, the canonical
  encoding of x exists and decoding it, into any envelope, succeeds and yields the
  payload of x, equal in every field, together with the length of the encoding. The
  encoding is shorter than 2^64 bytes, as every slice is.
\<close>

theorem DecodeCanonical_EncodeCanonical_roundtrip:
  assumes "inner x = Some d" and "valid_txdata d"
  shows "\<exists>bs. EncodeCanonical x = Inr bs \<and>
           (length bs < 2 ^ 64 \<longrightarrow>
              DecodeCanonical bs tx =
                (None, tx\<lparr>inner := inner x, innerBinarySize := int (length bs)\<rparr>))"
proof (cases d)
  case (LegacyTx t)
  with assms show ?thesis
    by (simp add: EncodeCanonical_def DecodeCanonical_legacy_encode)
next
  case (AccessListTx t)
  with assms show ?thesis
    by (simp add: EncodeCanonical_def encodeTypedCanonical_def EthereumLegacyTxType_def
        EthereumAccessListTxType_def DecodeCanonical_accesslist_encode)
next
  case (DynamicFeeTx t)
  with assms show ?thesis
    by (simp add: EncodeCanonical_def encodeTypedCanonical_def EthereumLegacyTxType_def
        EthereumDynamicFeeTxType_def DecodeCanonical_dynamicfee_encode)
qed

theorem DecodeCanonical_EncodeCanonical_roundtrip_witness:
  "inner sample_tx = Some (LegacyTx sample_ltx) \<and> valid_txdata (LegacyTx sample_ltx) \<and>
   EncodeCanonical sample_tx = Inr sample_ltx_bytes \<and>
   DecodeCanonical sample_ltx_bytes zero_tx = (None, sample_tx) \<and>
   inner sample_al_tx = Some (AccessListTx sample_altx) \<and>
   valid_txdata (AccessListTx sample_altx) \<and>
   EncodeCanonical sample_al_tx = Inr sample_altx_bytes \<and>
   DecodeCanonical sample_altx_bytes zero_tx = (None, sample_al_tx) \<and>
   inner sample_df_tx = Some (DynamicFeeTx sample_dftx) \<and>
   valid_txdata (DynamicFeeTx sample_dftx) \<and>
   EncodeCanonical sample_df_tx = Inr sample_dftx_bytes \<and>
   DecodeCanonical sample_dftx_bytes zero_tx = (None, sample_df_tx)"
proof -
  have l: "EncodeCanonical sample_tx = Inr sample_ltx_bytes"
    by (simp add: EncodeCanonical_def sample_tx_def encode_sample_ltx)
  have a: "EncodeCanonical sample_al_tx = Inr sample_altx_bytes"
    by (simp add: EncodeCanonical_def sample_al_tx_def encodeTypedCanonical_def
        EthereumLegacyTxType_def EthereumAccessListTxType_def encode_sample_altx)
  have d: "EncodeCanonical sample_df_tx = Inr sample_dftx_bytes"
    by (simp add: EncodeCanonical_def sample_df_tx_def encodeTypedCanonical_def
        EthereumLegacyTxType_def EthereumDynamicFeeTxType_def encode_sample_dftx)
  have len: "length sample_ltx_bytes = 42" "length sample_altx_bytes = 102"
    "length sample_dftx_bytes = 81"
    by (simp_all add: sample_ltx_bytes_def sample_altx_bytes_def sample_dftx_bytes_def)
  have il: "inner sample_tx = Some (LegacyTx sample_ltx)"
    and ia: "inner sample_al_tx = Some (AccessListTx sample_altx)"
    and idf: "inner sample_df_tx = Some (DynamicFeeTx sample_dftx)"
    by (simp_all add: sample_tx_def sample_al_tx_def sample_df_tx_def)
  have vl: "valid_txdata (LegacyTx sample_ltx)"
    and va: "valid_txdata (AccessListTx sample_altx)"
    and vd: "valid_txdata (DynamicFeeTx sample_dftx)"
    by (simp_all add: valid_samples)
  have "DecodeCanonical sample_ltx_bytes zero_tx =
          (None, zero_tx\<lparr>inner := inner sample_tx, innerBinarySize := 42\<rparr>)"
    using DecodeCanonical_EncodeCanonical_roundtrip [OF il vl, of zero_tx]
    by (simp add: l len)
  then have dl: "DecodeCanonical sample_ltx_bytes zero_tx = (None, sample_tx)"
    by (simp add: sample_tx_def zero_tx_def)
  have "DecodeCanonical sample_altx_bytes zero_tx =
          (None, zero_tx\<lparr>inner := inner sample_al_tx, innerBinarySize := 102\<rparr>)"
    using DecodeCanonical_EncodeCanonical_roundtrip [OF ia va, of zero_tx]
    by (simp add: a len)
  then have da: "DecodeCanonical sample_altx_bytes zero_tx = (None, sample_al_tx)"
    by (simp add: sample_al_tx_def zero_tx_def)
  have "DecodeCanonical sample_dftx_bytes zero_tx =
          (None, zero_tx\<lparr>inner := inner sample_df_tx, innerBinarySize := 81\<rparr>)"
    using DecodeCanonical_EncodeCanonical_roundtrip [OF idf vd, of zero_tx]
    by (simp add: d len)
  then have dd: "DecodeCanonical sample_dftx_bytes zero_tx = (None, sample_df_tx)"
    by (simp add: sample_df_tx_def zero_tx_def)
  show ?thesis
    by (simp only: il ia idf vl va vd l a d dl da dd simp_thms)
qed

subsection \<open>Dispatch on the leading byte\<close>

text \<open>
  C3. An input whose first byte is above 0x7f is decoded, whole, as a legacy
  transaction: the outcome is that of parsing it and unmarshalling the legacy fields.
  A first byte 0x01 is a tag: the rest is decoded as an access-list transaction, and
  the recorded size counts the tag. A first byte 0x02 does the same for the dynamic-fee
  variant. Any other first byte up to 0x7f fails with the error of an unsupported type,
  wrapped once.
\<close>

theorem DecodeCanonical_dispatch:
  "(bs \<noteq> [] \<and> 127 < unat (hd bs) \<longrightarrow>
      DecodeCanonical bs tx =
        (case Parse bs of
           Inl err \<Rightarrow> (Some (Wrap err ''failed to parse canonical representation as RLP''), tx)
         | Inr v \<Rightarrow>
             (case ltx_unmarshalFromFastRLP v of
                Inl err \<Rightarrow>
                  (Some (Wrapf err
                     ''failed to unmarshal from RLP ethereum legacy transaction, ethereumTxType %q''
                     [ArgString (EthereumTxType_String EthereumLegacyTxType)]), tx)
              | Inr t \<Rightarrow>
                  (None, tx\<lparr>inner := Some (LegacyTx t),
                             innerBinarySize := int (length bs)\<rparr>)))) \<and>
   DecodeCanonical (1 # rest) tx =
     (case altx_DecodeRLP rest of
        Inl err \<Rightarrow>
          (Some (Wrap (Wrapf err ''failed to unmarshal ethereum tx from RLP, ethereumTxType %q''
                         [ArgString (EthereumTxType_String EthereumAccessListTxType)])
             ''failed to unmarshal from canonical representation ethereum typed transaction''), tx)
      | Inr t \<Rightarrow>
          (None, tx\<lparr>inner := Some (AccessListTx t),
                     innerBinarySize := int (length (1 # rest))\<rparr>)) \<and>
   DecodeCanonical (2 # rest') tx =
     (case dftx_DecodeRLP rest' of
        Inl err \<Rightarrow>
          (Some (Wrap (Wrapf err ''failed to unmarshal ethereum tx from RLP, ethereumTxType %q''
                         [ArgString (EthereumTxType_String EthereumDynamicFeeTxType)])
             ''failed to unmarshal from canonical representation ethereum typed transaction''), tx)
      | Inr t \<Rightarrow>
          (None, tx\<lparr>inner := Some (DynamicFeeTx t),
                     innerBinarySize := int (length (2 # rest'))\<rparr>)) \<and>
   (unat b \<le> 127 \<and> b \<noteq> 1 \<and> b \<noteq> 2 \<longrightarrow>
      DecodeCanonical (b # rest'') tx =
        (Some (Wrap ErrTxTypeNotSupported
           ''failed to unmarshal from canonical representation ethereum typed transaction''), tx))"
proof (intro conjI impI)
  assume "bs \<noteq> [] \<and> 127 < unat (hd bs)"
  then show "DecodeCanonical bs tx =
        (case Parse bs of
           Inl err \<Rightarrow> (Some (Wrap err ''failed to parse canonical representation as RLP''), tx)
         | Inr v \<Rightarrow>
             (case ltx_unmarshalFromFastRLP v of
                Inl err \<Rightarrow>
                  (Some (Wrapf err
                     ''failed to unmarshal from RLP ethereum legacy transaction, ethereumTxType %q''
                     [ArgString (EthereumTxType_String EthereumLegacyTxType)]), tx)
              | Inr t \<Rightarrow>
                  (None, tx\<lparr>inner := Some (LegacyTx t),
                             innerBinarySize := int (length bs)\<rparr>)))"
    by (simp add: DecodeCanonical_legacy)
next
  show "DecodeCanonical (1 # rest) tx =
     (case altx_DecodeRLP rest of
        Inl err \<Rightarrow>
          (Some (Wrap (Wrapf err ''failed to unmarshal ethereum tx from RLP, ethereumTxType %q''
                         [ArgString (EthereumTxType_String EthereumAccessListTxType)])
             ''failed to unmarshal from canonical representation ethereum typed transaction''), tx)
      | Inr t \<Rightarrow>
          (None, tx\<lparr>inner := Some (AccessListTx t),
                     innerBinarySize := int (length (1 # rest))\<rparr>))"
    by (simp add: DecodeCanonical_typed decodeTypedCanonical_def EthereumAccessListTxType_def
        split: sum.split)
next
  show "DecodeCanonical (2 # rest') tx =
     (case dftx_DecodeRLP rest' of
        Inl err \<Rightarrow>
          (Some (Wrap (Wrapf err ''failed to unmarshal ethereum tx from RLP, ethereumTxType %q''
                         [ArgString (EthereumTxType_String EthereumDynamicFeeTxType)])
             ''failed to unmarshal from canonical representation ethereum typed transaction''), tx)
      | Inr t \<Rightarrow>
          (None, tx\<lparr>inner := Some (DynamicFeeTx t),
                     innerBinarySize := int (length (2 # rest'))\<rparr>))"
    by (simp add: DecodeCanonical_typed decodeTypedCanonical_def EthereumAccessListTxType_def
        EthereumDynamicFeeTxType_def split: sum.split)
next
  assume "unat b \<le> 127 \<and> b \<noteq> 1 \<and> b \<noteq> 2"
  then show "DecodeCanonical (b # rest'') tx =
        (Some (Wrap ErrTxTypeNotSupported
           ''failed to unmarshal from canonical representation ethereum typed transaction''), tx)"
    by (simp add: DecodeCanonical_typed decodeTypedCanonical_def EthereumAccessListTxType_def
        EthereumDynamicFeeTxType_def)
qed

theorem DecodeCanonical_dispatch_witness:
  "sample_ltx_bytes \<noteq> [] \<and> 127 < unat (hd sample_ltx_bytes) \<and>
   DecodeCanonical sample_ltx_bytes zero_tx = (None, sample_tx) \<and>
   DecodeCanonical sample_altx_bytes zero_tx = (None, sample_al_tx) \<and>
   DecodeCanonical sample_dftx_bytes zero_tx = (None, sample_df_tx) \<and>
   unat (3 :: byte) \<le> 127 \<and>
   DecodeCanonical [3, 192] zero_tx =
     (Some (Wrap ErrTxTypeNotSupported
        ''failed to unmarshal from canonical representation ethereum typed transaction''),
      zero_tx)"
proof -
  let ?l = "ltx_marshalToFastRLP sample_ltx"
  let ?a = "altx_marshalToFastRLP sample_altx"
  let ?d = "dftx_marshalToFastRLP sample_dftx"
  have len: "length (rlp_encode ?l) < 2 ^ 64" "length (rlp_encode ?a) < 2 ^ 64"
    "length (rlp_encode ?d) < 2 ^ 64"
    using arg_cong [OF encode_sample_ltx, of length]
      arg_cong [OF encode_sample_altx, of length]
      arg_cong [OF encode_sample_dftx, of length]
    by (simp_all add: sample_ltx_bytes_def sample_altx_bytes_def sample_dftx_bytes_def)
  have pl: "Parse sample_ltx_bytes = Inr ?l"
    using Parse_rlp_encode [OF rlp_ok_of_length [OF len(1)]] by (simp add: encode_sample_ltx)
  have pa: "altx_DecodeRLP (rlp_encode ?a) = Inr sample_altx"
    by (simp add: altx_DecodeRLP_def Parse_rlp_encode [OF rlp_ok_of_length [OF len(2)]]
        altx_unmarshal_marshal valid_samples)
  have pd: "dftx_DecodeRLP (rlp_encode ?d) = Inr sample_dftx"
    by (simp add: dftx_DecodeRLP_def Parse_rlp_encode [OF rlp_ok_of_length [OF len(3)]]
        dftx_unmarshal_marshal valid_samples)
  have h: "sample_ltx_bytes \<noteq> []" "127 < unat (hd sample_ltx_bytes)"
    by (simp_all add: sample_ltx_bytes_def)
  note d = DecodeCanonical_dispatch
    [where bs = sample_ltx_bytes and tx = zero_tx and rest = "rlp_encode ?a"
       and rest' = "rlp_encode ?d" and b = 3 and rest'' = "[192]"]
  have 1: "DecodeCanonical sample_ltx_bytes zero_tx = (None, sample_tx)"
    using d h
    by (simp add: pl ltx_unmarshal_marshal valid_samples)
       (simp add: sample_tx_def zero_tx_def sample_ltx_bytes_def)
  have 2: "DecodeCanonical sample_altx_bytes zero_tx = (None, sample_al_tx)"
    using d
    by (simp add: pa encode_sample_altx)
       (simp add: sample_al_tx_def zero_tx_def sample_altx_bytes_def)
  have 3: "DecodeCanonical sample_dftx_bytes zero_tx = (None, sample_df_tx)"
    using d
    by (simp add: pd encode_sample_dftx)
       (simp add: sample_df_tx_def zero_tx_def sample_dftx_bytes_def)
  have 4: "DecodeCanonical [3, 192] zero_tx =
     (Some (Wrap ErrTxTypeNotSupported
        ''failed to unmarshal from canonical representation ethereum typed transaction''),
      zero_tx)"
    using d by simp
  show ?thesis by (simp only: h 1 2 3 4 simp_thms) simp
qed

subsection \<open>The empty input and the tag 0x00\<close>

text \<open>
  C10. Decoding the empty input does not read a first byte: the length check sends it
  to the typed path, which fails with the error "empty typed transaction bytes", wrapped
  once. An input with the leading byte 0x00, the number of the legacy type, fails with
  the error of an unsupported type, wrapped once. The typed path never yields a legacy
  transaction.
\<close>

theorem DecodeCanonical_empty_and_zero_tag:
  "DecodeCanonical [] tx =
     (Some (Wrap (ErrorsNew ''empty typed transaction bytes'')
        ''failed to unmarshal from canonical representation ethereum typed transaction''), tx) \<and>
   DecodeCanonical (0 # rest) tx =
     (Some (Wrap ErrTxTypeNotSupported
        ''failed to unmarshal from canonical representation ethereum typed transaction''), tx) \<and>
   decodeTypedCanonical bs \<noteq> Inr (LegacyTx t)"
  by (simp add: DecodeCanonical_typed decodeTypedCanonical_def EthereumAccessListTxType_def
        EthereumDynamicFeeTxType_def split: list.split sum.split)

theorem DecodeCanonical_empty_and_zero_tag_witness:
  "DecodeCanonical [] zero_tx =
     (Some (Wrap (ErrorsNew ''empty typed transaction bytes'')
        ''failed to unmarshal from canonical representation ethereum typed transaction''),
      zero_tx) \<and>
   DecodeCanonical [0, 192] zero_tx =
     (Some (Wrap ErrTxTypeNotSupported
        ''failed to unmarshal from canonical representation ethereum typed transaction''),
      zero_tx) \<and>
   decodeTypedCanonical sample_ltx_bytes \<noteq> Inr (LegacyTx sample_ltx)"
  using DecodeCanonical_empty_and_zero_tag
    [where tx = zero_tx and rest = "[192]" and bs = sample_ltx_bytes and t = sample_ltx]
  by simp

subsection \<open>The steps of the validator after the fee check\<close>

lemma Validate_legacy_passes_1_to_4:
  assumes "inner tx = Some d" and "chainID d = Inr (uint scheme)"
    and "ethereumTxType d = EthereumLegacyTxType" and "innerBinarySize tx \<le> 1048576"
    and "gas d \<noteq> 0"
  shows "Validate scheme tx =
     (case EthereumWeiToWavelet (value d) of
        Inl err \<Rightarrow> (Some (FeeValidation (ErrorText err)), tx)
      | Inr wavelets \<Rightarrow>
          if wavelets < 0 then (Some (NonPositiveAmount wavelets ''waves''), tx)
          else if value d = 0 \<and> data d = [] then
            (Some (TxValidationError (Str ''Transaction cancellation is not supported'')), tx)
          else if value d \<noteq> 0 \<and> data d \<noteq> [] then
            (Some (TxValidationError (Str ''Transaction should have either data or value'')), tx)
          else (first_failure (drop 7 (validation_rules scheme (uint scheme) (innerBinarySize tx) d)), tx))"
proof (cases "EthereumWeiToWavelet (value d)")
  case (Inl err)
  then show ?thesis
    using assms by (simp add: Validate_first_failure validation_rules_def word_gt_0)
next
  case (Inr w)
  show ?thesis
  proof (cases "w < 0")
    case True
    then show ?thesis
      using assms Inr by (simp add: Validate_first_failure validation_rules_def word_gt_0)
  next
    case nonneg: False
    show ?thesis
    proof (cases "value d = 0 \<and> data d = []")
      case True
      then show ?thesis
        using assms Inr nonneg
        by (simp add: Validate_first_failure validation_rules_def word_gt_0)
    next
      case nocancel: False
      show ?thesis
      proof (cases "value d \<noteq> 0 \<and> data d \<noteq> []")
        case True
        then show ?thesis
          using assms Inr nonneg
          by (simp add: Validate_first_failure validation_rules_def word_gt_0)
      next
        case False
        then show ?thesis
          using assms Inr nonneg nocancel
          by (simp add: Validate_first_failure validation_rules_def word_gt_0)
      qed
    qed
  qed
qed



lemma EthereumWeiToWavelet_0: "EthereumWeiToWavelet 0 = Inr 0"
  by (simp add: EthereumWeiToWavelet_def)

lemma EthereumWeiToWavelet_overflow:
  "EthereumWeiToWavelet 92233720368547758080000000000 =
     Inl (ErrorsNew ''too many waves: the amount does not fit 64 bits'')"
  by (simp add: EthereumWeiToWavelet_def diffEthWaves_def Let_def)

lemma EthereumWeiToWavelet_samples:
  "EthereumWeiToWavelet (- 50000000000) = Inr (- 5)"
  "EthereumWeiToWavelet 50000000000 = Inr 5"
  by (simp_all add: EthereumWeiToWavelet_def diffEthWaves_def Let_def)

subsection \<open>The shape of the payload\<close>



subsection \<open>The conversion of the value\<close>

text \<open>
  C8, as amended. When rules 1 to 4 pass, the value is converted to the native unit,
  and the conversion step has exactly two errors. If the conversion fails, the
  validator fails with a fee-validation error that carries the text of the conversion
  error. If it yields an amount w, the validator fails with the non-positive-amount
  error exactly when w is negative; when w is not negative the step reports nothing,
  and the outcome is that of the five rules after it, which do not read the amount.
\<close>

theorem Validate_conversion_step:
  assumes "inner tx = Some d" and "chainID d = Inr (uint scheme)"
    and "ethereumTxType d = EthereumLegacyTxType" and "innerBinarySize tx \<le> 1048576"
    and "gas d \<noteq> 0"
  shows "(EthereumWeiToWavelet (value d) = Inl err \<longrightarrow>
            Validate scheme tx = (Some (FeeValidation (ErrorText err)), tx)) \<and>
         (EthereumWeiToWavelet (value d) = Inr w \<longrightarrow>
            (w < 0 \<longrightarrow> Validate scheme tx = (Some (NonPositiveAmount w ''waves''), tx)) \<and>
            (fst (Validate scheme tx) = Some (NonPositiveAmount n u) \<longrightarrow> w < 0) \<and>
            (0 \<le> w \<longrightarrow>
               Validate scheme tx =
                 (first_failure
                    [(\<not> (value d = 0 \<and> data d = []),
                        TxValidationError (Str ''Transaction cancellation is not supported'')),
                     (\<not> (value d \<noteq> 0 \<and> data d \<noteq> []),
                        TxValidationError (Str ''Transaction should have either data or value'')),
                     (gasPrice d = 10 * 10 ^ 9,
                        TxValidationError (Str ''Gas price must be 10 Gwei'')),
                     (to d \<noteq> None,
                        TxValidationError (Str ''Contract creation transaction is not supported'')),
                     (0 < nonce d,
                        TxValidationError (Str ''invalid timestamp''))], tx)))"
proof (intro conjI impI)
  assume "EthereumWeiToWavelet (value d) = Inl err"
  then show "Validate scheme tx = (Some (FeeValidation (ErrorText err)), tx)"
    using Validate_legacy_passes_1_to_4 [OF assms] by simp
next
  assume "EthereumWeiToWavelet (value d) = Inr w" and "w < 0"
  then show "Validate scheme tx = (Some (NonPositiveAmount w ''waves''), tx)"
    using Validate_legacy_passes_1_to_4 [OF assms] by simp
next
  assume "EthereumWeiToWavelet (value d) = Inr w"
    and "fst (Validate scheme tx) = Some (NonPositiveAmount n u)"
  then show "w < 0"
    using Validate_legacy_passes_1_to_4 [OF assms]
    by (auto simp add: validation_rules_def split: if_splits)
next
  assume w: "EthereumWeiToWavelet (value d) = Inr w" and nonneg: "0 \<le> w"
  have g: "0 < gas d" using assms(5) by (simp add: word_gt_0)
  have "Validate scheme tx =
      (first_failure (validation_rules scheme (uint scheme) (innerBinarySize tx) d), tx)"
    by (rule Validate_first_failure [OF assms(1,2)])
  also have "first_failure (validation_rules scheme (uint scheme) (innerBinarySize tx) d) =
      first_failure
        [(\<not> (value d = 0 \<and> data d = []),
            TxValidationError (Str ''Transaction cancellation is not supported'')),
         (\<not> (value d \<noteq> 0 \<and> data d \<noteq> []),
            TxValidationError (Str ''Transaction should have either data or value'')),
         (gasPrice d = 10 * 10 ^ 9,
            TxValidationError (Str ''Gas price must be 10 Gwei'')),
         (to d \<noteq> None,
            TxValidationError (Str ''Contract creation transaction is not supported'')),
         (0 < nonce d,
            TxValidationError (Str ''invalid timestamp''))]"
    unfolding validation_rules_def
    using assms(3,4) g w nonneg
    by (simp only: first_failure.simps sum.case prod.case if_True simp_thms)
  finally show "Validate scheme tx =
      (first_failure
        [(\<not> (value d = 0 \<and> data d = []),
            TxValidationError (Str ''Transaction cancellation is not supported'')),
         (\<not> (value d \<noteq> 0 \<and> data d \<noteq> []),
            TxValidationError (Str ''Transaction should have either data or value'')),
         (gasPrice d = 10 * 10 ^ 9,
            TxValidationError (Str ''Gas price must be 10 Gwei'')),
         (to d \<noteq> None,
            TxValidationError (Str ''Contract creation transaction is not supported'')),
         (0 < nonce d,
            TxValidationError (Str ''invalid timestamp''))], tx)" .
qed

theorem Validate_conversion_step_witness:
  "inner overflow_tx = Some (LegacyTx overflow_ltx) \<and>
   chainID (LegacyTx overflow_ltx) = Inr (uint (87 :: byte)) \<and>
   innerBinarySize overflow_tx \<le> 1048576 \<and> gas (LegacyTx overflow_ltx) \<noteq> 0 \<and>
   Validate 87 overflow_tx =
     (Some (FeeValidation (ErrorText
        (ErrorsNew ''too many waves: the amount does not fit 64 bits''))), overflow_tx) \<and>
   EthereumWeiToWavelet (value (LegacyTx negative_ltx)) = Inr (- 5) \<and>
   Validate 87 negative_tx = (Some (NonPositiveAmount (- 5) ''waves''), negative_tx) \<and>
   EthereumWeiToWavelet (value (LegacyTx sample_ltx)) = Inr 0 \<and>
   Validate 87 sample_tx = (None, sample_tx)"
proof -
  have o: "inner overflow_tx = Some (LegacyTx overflow_ltx)"
    "chainID (LegacyTx overflow_ltx) = Inr (uint (87 :: byte))"
    "ethereumTxType (LegacyTx overflow_ltx) = EthereumLegacyTxType"
    "innerBinarySize overflow_tx \<le> 1048576" "gas (LegacyTx overflow_ltx) \<noteq> 0"
    by (simp_all add: overflow_tx_def overflow_ltx_def sample_ltx_def deriveChainId_209)
  have n: "inner negative_tx = Some (LegacyTx negative_ltx)"
    "chainID (LegacyTx negative_ltx) = Inr (uint (87 :: byte))"
    "ethereumTxType (LegacyTx negative_ltx) = EthereumLegacyTxType"
    "innerBinarySize negative_tx \<le> 1048576" "gas (LegacyTx negative_ltx) \<noteq> 0"
    by (simp_all add: negative_tx_def negative_ltx_def sample_ltx_def deriveChainId_209)
  have s: "inner sample_tx = Some (LegacyTx sample_ltx)"
    "chainID (LegacyTx sample_ltx) = Inr (uint (87 :: byte))"
    "ethereumTxType (LegacyTx sample_ltx) = EthereumLegacyTxType"
    "innerBinarySize sample_tx \<le> 1048576" "gas (LegacyTx sample_ltx) \<noteq> 0"
    by (simp_all add: sample_tx_def sample_ltx_def deriveChainId_209)
  have vo: "EthereumWeiToWavelet (value (LegacyTx overflow_ltx)) =
      Inl (ErrorsNew ''too many waves: the amount does not fit 64 bits'')"
    by (simp add: overflow_ltx_def EthereumWeiToWavelet_overflow)
  have vn: "EthereumWeiToWavelet (value (LegacyTx negative_ltx)) = Inr (- 5)"
    by (simp add: negative_ltx_def EthereumWeiToWavelet_samples)
  have vs: "EthereumWeiToWavelet (value (LegacyTx sample_ltx)) = Inr 0"
    by (simp add: sample_ltx_def EthereumWeiToWavelet_0)
  have 1: "Validate 87 overflow_tx =
     (Some (FeeValidation (ErrorText
        (ErrorsNew ''too many waves: the amount does not fit 64 bits''))), overflow_tx)"
    using Validate_conversion_step [OF o,
        where err = "ErrorsNew ''too many waves: the amount does not fit 64 bits''"] vo
    by simp
  have 2: "Validate 87 negative_tx = (Some (NonPositiveAmount (- 5) ''waves''), negative_tx)"
    using Validate_conversion_step [OF n, where w = "- 5"] vn
    by simp
  have 3: "Validate 87 sample_tx = (None, sample_tx)"
    using Validate_conversion_step [OF s, where w = 0] vs
    by (simp add: sample_ltx_def)
  show ?thesis by (simp only: o vn vs 1 2 3 simp_thms)
qed

text \<open>
  The claim as stated excludes any other error of the conversion step. The legacy
  transfer of 2^63 * 10^10 wei decodes from its canonical bytes, passes rules 1 to 4,
  and is rejected with the fee-validation error of the failed conversion.
\<close>

theorem Validate_conversion_counterexample:
  "DecodeCanonical (rlp_encode (ltx_marshalToFastRLP overflow_ltx)) zero_tx
     = (None, overflow_tx) \<and>
   first_failure (take 4 (validation_rules 87 87 (innerBinarySize overflow_tx)
     (LegacyTx overflow_ltx))) = None \<and>
   Validate 87 overflow_tx =
     (Some (FeeValidation (ErrorText
        (ErrorsNew ''too many waves: the amount does not fit 64 bits''))), overflow_tx)"
proof (intro conjI)
  show "DecodeCanonical (rlp_encode (ltx_marshalToFastRLP overflow_ltx)) zero_tx
          = (None, overflow_tx)"
    by (rule Decode_overflow)
  show "first_failure (take 4 (validation_rules 87 87 (innerBinarySize overflow_tx)
     (LegacyTx overflow_ltx))) = None"
    by (simp add: validation_rules_def overflow_tx_def overflow_ltx_def sample_ltx_def)
  have i: "inner overflow_tx = Some (LegacyTx overflow_ltx)"
    by (simp add: overflow_tx_def)
  have c: "chainID (LegacyTx overflow_ltx) = Inr 87"
    by (simp add: overflow_ltx_def sample_ltx_def deriveChainId_209)
  have v: "value (LegacyTx overflow_ltx) = 92233720368547758080000000000"
    by (simp add: overflow_ltx_def)
  show "Validate 87 overflow_tx =
     (Some (FeeValidation (ErrorText
        (ErrorsNew ''too many waves: the amount does not fit 64 bits''))), overflow_tx)"
    by (simp only: Validate_first_failure [OF i c])
       (simp add: validation_rules_def v EthereumWeiToWavelet_overflow overflow_tx_def
          overflow_ltx_def sample_ltx_def)
qed

subsection \<open>The rules of the spec and a value that cannot be converted\<close>

text \<open>
  With the fifth rule in the words of the spec the claim fails: the legacy transfer of
  2^63 * 10^10 wei decodes from its canonical bytes and meets all ten rules, its
  converted amount being positive, and the validator rejects it, the amount not fitting
  64 bits.
\<close>

theorem Validate_spec_rules_counterexample:
  "DecodeCanonical (rlp_encode (ltx_marshalToFastRLP overflow_ltx)) zero_tx
     = (None, overflow_tx) \<and>
   chainID (LegacyTx overflow_ltx) = Inr 87 \<and>
   first_failure (spec_validation_rules 87 87 (innerBinarySize overflow_tx)
     (LegacyTx overflow_ltx)) = None \<and>
   Validate 87 overflow_tx =
     (Some (FeeValidation (ErrorText
        (ErrorsNew ''too many waves: the amount does not fit 64 bits''))), overflow_tx)"
proof (intro conjI)
  show "DecodeCanonical (rlp_encode (ltx_marshalToFastRLP overflow_ltx)) zero_tx
          = (None, overflow_tx)"
    by (rule Decode_overflow)
  show c: "chainID (LegacyTx overflow_ltx) = Inr 87"
    by (simp add: overflow_ltx_def sample_ltx_def deriveChainId_209)
  show "first_failure (spec_validation_rules 87 87 (innerBinarySize overflow_tx)
     (LegacyTx overflow_ltx)) = None"
    by (simp add: spec_validation_rules_def spec_converted_amount_def diffEthWaves_def
        overflow_tx_def overflow_ltx_def sample_ltx_def)
  have i: "inner overflow_tx = Some (LegacyTx overflow_ltx)"
    by (simp add: overflow_tx_def)
  have v: "value (LegacyTx overflow_ltx) = 92233720368547758080000000000"
    by (simp add: overflow_ltx_def)
  show "Validate 87 overflow_tx =
     (Some (FeeValidation (ErrorText
        (ErrorsNew ''too many waves: the amount does not fit 64 bits''))), overflow_tx)"
    by (simp only: Validate_first_failure [OF i c])
       (simp add: validation_rules_def v EthereumWeiToWavelet_overflow overflow_tx_def
          overflow_ltx_def sample_ltx_def)
qed

subsection \<open>Scenario A\<close>

text \<open>
  C4, as amended. A legacy envelope with value 0, non-empty data, a gas price of
  10 GWei, a gas limit of 21000, a recipient, nonce 1, the chain id of the target and a
  recorded size of at most 1 MiB is accepted: the validator returns no error and the
  envelope as it was.
\<close>

theorem Validate_scenario_A:
  assumes "scenario_A scheme tx" and "innerBinarySize tx \<le> 1048576"
  shows "Validate scheme tx = (None, tx)"
proof -
  from assms(1) obtain t where t: "inner tx = Some (LegacyTx t)"
    and f: "ltx_Value t = 0" "ltx_Data t \<noteq> []" "ltx_GasPrice t = 10 * 10 ^ 9"
      "ltx_Gas t = 21000" "ltx_To t \<noteq> None" "ltx_Nonce t = 1"
    and c: "chainID (LegacyTx t) = Inr (uint scheme)"
    by (auto simp add: scenario_A_def split: option.splits EthereumTxData.splits)
  show ?thesis
    using f assms(2)
    by (simp add: Validate_first_failure [OF t c] validation_rules_def
        EthereumWeiToWavelet_0)
qed

theorem Validate_scenario_A_witness:
  "scenario_A 87 sample_tx \<and> innerBinarySize sample_tx \<le> 1048576 \<and>
   Validate 87 sample_tx = (None, sample_tx)"
  using Validate_scenario_A [of 87 sample_tx]
  by (simp add: scenario_A_def sample_tx_def sample_ltx_def deriveChainId_209)

text \<open>
  Without the bound on the size the claim fails: the legacy transaction whose data fill
  1 MiB decodes from its canonical bytes of 1048622 bytes, meets every condition of the
  scenario, and is rejected as too big.
\<close>

theorem Validate_scenario_A_counterexample:
  "DecodeCanonical (rlp_encode (ltx_marshalToFastRLP oversized_ltx)) zero_tx
     = (None, oversized_tx) \<and>
   scenario_A 87 oversized_tx \<and>
   Validate 87 oversized_tx =
     (Some (TxValidationError (Str ''too big size of transaction'')), oversized_tx)"
proof (intro conjI)
  show "DecodeCanonical (rlp_encode (ltx_marshalToFastRLP oversized_ltx)) zero_tx
          = (None, oversized_tx)"
    by (rule Decode_oversized)
  show "scenario_A 87 oversized_tx"
    by (simp add: scenario_A_def oversized_tx_def oversized_ltx_def sample_ltx_def
        deriveChainId_209)
  have i: "inner oversized_tx = Some (LegacyTx oversized_ltx)"
    by (simp add: oversized_tx_def)
  have c: "chainID (LegacyTx oversized_ltx) = Inr 87"
    by (simp add: oversized_ltx_def sample_ltx_def deriveChainId_209)
  show "Validate 87 oversized_tx =
     (Some (TxValidationError (Str ''too big size of transaction'')), oversized_tx)"
    by (simp only: Validate_first_failure [OF i c])
       (simp add: validation_rules_def oversized_tx_def)
qed

subsection \<open>The identifier\<close>

lemma id_DecodeCanonical: "id' (snd (DecodeCanonical bs tx)) = id' tx"
proof (cases "bs \<noteq> [] \<and> 127 < unat (hd bs)")
  case True
  then show ?thesis by (simp add: DecodeCanonical_legacy split: sum.splits)
next
  case False
  then have "bs = [] \<or> unat (hd bs) \<le> 127" by auto
  then show ?thesis by (simp add: DecodeCanonical_typed split: sum.splits)
qed

lemma length_encode_sample_altx:
  "length (rlp_encode (altx_marshalToFastRLP sample_altx)) < 2 ^ 64"
  using arg_cong [OF encode_sample_altx, of length] by (simp add: sample_altx_bytes_def)

lemma GetID_cached: "id' x = Some c \<Longrightarrow> GetID K scheme x = (Inr c, x)"
  by (simp add: GetID_def)

text \<open>
  An envelope that is decoded a second time after its identifier was computed: whatever
  the hash is, the identifier returned is the hash of the first bytes.
\<close>

lemma GetID_after_second_decode:
  "GetID K 87 (snd (DecodeCanonical sample_altx_bytes
      (snd (GetID K 87 (snd (DecodeCanonical sample_ltx_bytes zero_tx))))))
     = (Inr (K sample_ltx_bytes), sample_al_tx\<lparr>id' := Some (K sample_ltx_bytes)\<rparr>)"
proof -
  have l: "DecodeCanonical sample_ltx_bytes zero_tx = (None, sample_tx)"
    using DecodeCanonical_legacy_encode [OF valid_samples(1), of zero_tx]
    by (simp add: encode_sample_ltx)
       (simp add: sample_ltx_bytes_def sample_tx_def zero_tx_def)
  have e: "EncodeCanonical sample_tx = Inr sample_ltx_bytes"
    by (simp add: EncodeCanonical_def sample_tx_def encode_sample_ltx)
  have g: "GetID K 87 sample_tx
      = (Inr (K sample_ltx_bytes), sample_tx\<lparr>id' := Some (K sample_ltx_bytes)\<rparr>)"
    by (simp add: GetID_def GenerateID_def e) (simp add: sample_tx_def)
  have a: "DecodeCanonical sample_altx_bytes (sample_tx\<lparr>id' := Some (K sample_ltx_bytes)\<rparr>)
      = (None, sample_al_tx\<lparr>id' := Some (K sample_ltx_bytes)\<rparr>)"
    using DecodeCanonical_accesslist_encode [OF valid_samples(2) length_encode_sample_altx,
        of "sample_tx\<lparr>id' := Some (K sample_ltx_bytes)\<rparr>"]
    by (simp add: encode_sample_altx)
       (simp add: sample_altx_bytes_def sample_tx_def sample_al_tx_def)
  show ?thesis by (simp add: l g a GetID_cached)
qed

text \<open>
  C5, as amended. For an envelope with a payload whose identifier is not yet computed,
  as it is after decoding into a fresh envelope, the identifier returned is the hash of
  the canonical encoding; the call stores it in the envelope. Once an identifier is
  stored, every call, for any network byte, returns that digest and leaves the envelope
  as it is. Nothing invalidates it: decoding leaves the stored identifier in place,
  whether it fails or succeeds. The hash is the function the source names, the
  Keccak-256 hash of the Ethereum ecosystem, a parameter here.
\<close>

theorem GetID_keccak:
  assumes "inner x = Some d" and "EncodeCanonical x = Inr body"
  shows "(id' x = None \<longrightarrow>
            GetID K scheme x = (Inr (K body), x\<lparr>id' := Some (K body)\<rparr>)) \<and>
         (id' x = Some c \<longrightarrow> GetID K scheme x = (Inr c, x)) \<and>
         GetID K scheme' (x\<lparr>id' := Some (K body)\<rparr>)
           = (Inr (K body), x\<lparr>id' := Some (K body)\<rparr>) \<and>
         id' (snd (DecodeCanonical bs x)) = id' x"
  using assms by (auto simp add: GetID_def GenerateID_def id_DecodeCanonical)

theorem GetID_keccak_witness:
  "inner sample_tx = Some (LegacyTx sample_ltx) \<and>
   EncodeCanonical sample_tx = Inr sample_ltx_bytes \<and> id' sample_tx = None \<and>
   GetID sample_hash 87 sample_tx = (Inr [42], sample_tx\<lparr>id' := Some [42]\<rparr>) \<and>
   inner (sample_tx\<lparr>id' := Some [42]\<rparr>) = Some (LegacyTx sample_ltx) \<and>
   EncodeCanonical (sample_tx\<lparr>id' := Some [42]\<rparr>) = Inr sample_ltx_bytes \<and>
   id' (sample_tx\<lparr>id' := Some [42]\<rparr>) = Some [42] \<and>
   GetID sample_hash 84 (sample_tx\<lparr>id' := Some [42]\<rparr>)
     = (Inr [42], sample_tx\<lparr>id' := Some [42]\<rparr>)"
proof -
  have i: "inner sample_tx = Some (LegacyTx sample_ltx)" and n: "id' sample_tx = None"
    and i2: "inner (sample_tx\<lparr>id' := Some [42]\<rparr>) = Some (LegacyTx sample_ltx)"
    and n2: "id' (sample_tx\<lparr>id' := Some [42]\<rparr>) = Some [42]"
    by (simp_all add: sample_tx_def)
  have e: "EncodeCanonical sample_tx = Inr sample_ltx_bytes"
    and e2: "EncodeCanonical (sample_tx\<lparr>id' := Some [42]\<rparr>) = Inr sample_ltx_bytes"
    by (simp_all add: EncodeCanonical_def sample_tx_def encode_sample_ltx)
  have h: "sample_hash sample_ltx_bytes = [42]"
    by (simp add: sample_hash_def sample_ltx_bytes_def)
  have 1: "GetID sample_hash 87 sample_tx = (Inr [42], sample_tx\<lparr>id' := Some [42]\<rparr>)"
    using GetID_keccak [OF i e, where K = sample_hash and scheme = 87] n
    by (simp add: h)
  have 2: "GetID sample_hash 84 (sample_tx\<lparr>id' := Some [42]\<rparr>)
      = (Inr [42], sample_tx\<lparr>id' := Some [42]\<rparr>)"
    using GetID_keccak [OF i2 e2, where K = sample_hash and scheme = 84 and c = "[42]"] n2
    by simp
  show ?thesis by (simp only: i n i2 n2 e e2 1 2 simp_thms)
qed

text \<open>
  Without the condition on the stored identifier the claim fails. The legacy sample is
  decoded into the zero envelope and its identifier computed; the bytes of the
  access-list sample are then decoded into the same envelope. The envelope now encodes
  to those bytes, whose hash is [102], and its identifier is still [42].
\<close>

theorem GetID_stale_counterexample:
  "DecodeCanonical sample_ltx_bytes zero_tx = (None, sample_tx) \<and>
   GetID sample_hash 87 sample_tx = (Inr [42], sample_tx\<lparr>id' := Some [42]\<rparr>) \<and>
   DecodeCanonical sample_altx_bytes (sample_tx\<lparr>id' := Some [42]\<rparr>)
     = (None, sample_al_tx\<lparr>id' := Some [42]\<rparr>) \<and>
   EncodeCanonical (sample_al_tx\<lparr>id' := Some [42]\<rparr>) = Inr sample_altx_bytes \<and>
   sample_hash sample_altx_bytes = [102] \<and>
   GetID sample_hash 87 (sample_al_tx\<lparr>id' := Some [42]\<rparr>)
     = (Inr [42], sample_al_tx\<lparr>id' := Some [42]\<rparr>)"
proof (intro conjI)
  show "DecodeCanonical sample_ltx_bytes zero_tx = (None, sample_tx)"
    using DecodeCanonical_legacy_encode [OF valid_samples(1), of zero_tx]
    by (simp add: encode_sample_ltx)
       (simp add: sample_ltx_bytes_def sample_tx_def zero_tx_def)
  have e: "EncodeCanonical sample_tx = Inr sample_ltx_bytes"
    by (simp add: EncodeCanonical_def sample_tx_def encode_sample_ltx)
  have h: "sample_hash sample_ltx_bytes = [42]"
    by (simp add: sample_hash_def sample_ltx_bytes_def)
  show "GetID sample_hash 87 sample_tx = (Inr [42], sample_tx\<lparr>id' := Some [42]\<rparr>)"
    by (simp add: GetID_def GenerateID_def e h) (simp add: sample_tx_def)
  show "DecodeCanonical sample_altx_bytes (sample_tx\<lparr>id' := Some [42]\<rparr>)
     = (None, sample_al_tx\<lparr>id' := Some [42]\<rparr>)"
    using DecodeCanonical_accesslist_encode [OF valid_samples(2) length_encode_sample_altx,
        of "sample_tx\<lparr>id' := Some [42]\<rparr>"]
    by (simp add: encode_sample_altx)
       (simp add: sample_altx_bytes_def sample_tx_def sample_al_tx_def)
  show "EncodeCanonical (sample_al_tx\<lparr>id' := Some [42]\<rparr>) = Inr sample_altx_bytes"
    by (simp add: EncodeCanonical_def sample_al_tx_def encodeTypedCanonical_def
        EthereumLegacyTxType_def EthereumAccessListTxType_def encode_sample_altx)
  show "sample_hash sample_altx_bytes = [102]"
    by (simp add: sample_hash_def sample_altx_bytes_def)
  show "GetID sample_hash 87 (sample_al_tx\<lparr>id' := Some [42]\<rparr>)
     = (Inr [42], sample_al_tx\<lparr>id' := Some [42]\<rparr>)"
    by (simp add: GetID_cached)
qed

end
